theory Spec2Isabelle
  imports Complex_Main "HOL-Library.Word"
begin

section \<open>JavaScript values\<close>

text \<open>
  The handler receives whatever the invoking service deserialised, so the event is an
  arbitrary JavaScript value and every property read and coercion of the source is
  spelled out. A JavaScript string is a sequence of 16-bit code units.
\<close>

type_synonym jsstr = "16 word list"

definition str :: "string \<Rightarrow> jsstr" where
  "str s = map of_char s"

text \<open>
  Numbers: \<open>-0\<close> is identified with \<open>0\<close> (both are falsy and both print as \<open>0\<close>);
  a finite double is the rational it denotes.
\<close>

datatype jsnum = NaN | PosInfinity | NegInfinity | Finite rat

datatype jsval =
    Undefined
  | Null
  | Bool bool
  | Num jsnum
  | Str jsstr
  | Arr "jsval list"
  | Obj "(jsstr \<times> jsval) list"

text \<open>
  Errors that can be thrown inside the program: \<open>Error m\<close> is \<open>new Error(m)\<close> of
  the source; the next three are raised by the language itself; the last three are
  rejections of the external services.
\<close>

datatype js_error =
    Error jsstr
  | TypeError
  | SyntaxError
  | URIError
  | SendGridError
  | SequelizeError
  | SecretsManagerError

text \<open>Truthiness, as tested by \<open>!x\<close>.\<close>

fun truthy :: "jsval \<Rightarrow> bool" where
  "truthy Undefined = False"
| "truthy Null = False"
| "truthy (Bool b) = b"
| "truthy (Num NaN) = False"
| "truthy (Num (Finite q)) = (q \<noteq> 0)"
| "truthy (Num _) = True"
| "truthy (Str s) = (s \<noteq> [])"
| "truthy (Arr _) = True"
| "truthy (Obj _) = True"

fun isArray :: "jsval \<Rightarrow> bool" where
  "isArray (Arr _) = True"
| "isArray _ = False"

text \<open>
  Property read \<open>v.k\<close>, for the names this program reads (\<open>Records\<close>, \<open>Sns\<close>,
  \<open>Message\<close>, \<open>email\<close>, \<open>SecretString\<close>, \<open>password\<close>, \<open>api_key\<close>): none of
  them is defined by a built-in prototype, so the read yields the object's own property,
  \<open>undefined\<close> on any other value, and throws on \<open>undefined\<close> and \<open>null\<close>.
\<close>

fun get_prop :: "jsval \<Rightarrow> jsstr \<Rightarrow> js_error + jsval" where
  "get_prop Undefined k = Inl TypeError"
| "get_prop Null k = Inl TypeError"
| "get_prop (Obj kvs) k = (case map_of kvs k of Some v \<Rightarrow> Inr v | None \<Rightarrow> Inr Undefined)"
| "get_prop _ k = Inr Undefined"

text \<open>
  \<open>ToString\<close>. The printing of a finite number is left to the platform (\<open>fmt\<close>).
  An array prints as its elements joined by commas, \<open>undefined\<close> and \<open>null\<close>
  elements printing as nothing. A plain object prints as \<open>[object Object]\<close>, unless it
  has an own property \<open>toString\<close>: that shadows the built-in method with a value that
  cannot be called, and the conversion throws.
\<close>

fun ToString :: "(rat \<Rightarrow> jsstr) \<Rightarrow> jsval \<Rightarrow> js_error + jsstr"
  and join :: "(rat \<Rightarrow> jsstr) \<Rightarrow> jsval list \<Rightarrow> js_error + jsstr"
where
  "ToString fmt Undefined = Inr (str ''undefined'')"
| "ToString fmt Null = Inr (str ''null'')"
| "ToString fmt (Bool b) = Inr (if b then str ''true'' else str ''false'')"
| "ToString fmt (Num NaN) = Inr (str ''NaN'')"
| "ToString fmt (Num PosInfinity) = Inr (str ''Infinity'')"
| "ToString fmt (Num NegInfinity) = Inr (str ''-Infinity'')"
| "ToString fmt (Num (Finite q)) = Inr (fmt q)"
| "ToString fmt (Str s) = Inr s"
| "ToString fmt (Arr xs) = join fmt xs"
| "ToString fmt (Obj kvs) =
     (case map_of kvs (str ''toString'') of
        Some _ \<Rightarrow> Inl TypeError
      | None \<Rightarrow> Inr (str ''[object Object]''))"
| "join fmt [] = Inr []"
| "join fmt (x # xs) =
     (case (if x = Undefined \<or> x = Null then Inr [] else ToString fmt x) of
        Inl e \<Rightarrow> Inl e
      | Inr s \<Rightarrow>
          (if xs = [] then Inr s
           else (case join fmt xs of
                   Inl e \<Rightarrow> Inl e
                 | Inr t \<Rightarrow> Inr (s @ str '','' @ t))))"

section \<open>Hex and URI encoding\<close>

definition hexdigit :: "nat \<Rightarrow> 16 word" where
  "hexdigit n = of_char (''0123456789abcdef'' ! n)"

definition HEXDIGIT :: "nat \<Rightarrow> 16 word" where
  "HEXDIGIT n = of_char (''0123456789ABCDEF'' ! n)"

text \<open>\<open>buffer.toString('hex')\<close>: two lower-case digits for each byte.\<close>

definition toHex :: "8 word list \<Rightarrow> jsstr" where
  "toHex bs = concat (map (\<lambda>b. [hexdigit (unat b div 16), hexdigit (unat b mod 16)]) bs)"

definition isHexString :: "jsstr \<Rightarrow> bool" where
  "isHexString s = (\<forall>c \<in> set s. c \<in> set (str ''0123456789abcdef''))"

text \<open>
  \<open>encodeURIComponent\<close>: letters, digits and \<open>-_.!~*'()\<close> stay; any other code
  point is written as the percent-escaped bytes of its UTF-8 form; a surrogate code unit
  without its partner throws.
\<close>

definition uriUnreserved :: "16 word \<Rightarrow> bool" where
  "uriUnreserved c =
     (c \<in> set (str (''abcdefghijklmnopqrstuvwxyz'' @ ''ABCDEFGHIJKLMNOPQRSTUVWXYZ''
                    @ ''0123456789'' @ ''-_.!~*()'' @ [CHR 0x27])))"

definition utf8 :: "nat \<Rightarrow> nat list" where
  "utf8 cp =
     (if cp < 0x80 then [cp]
      else if cp < 0x800 then [0xC0 + cp div 64, 0x80 + cp mod 64]
      else if cp < 0x10000 then
        [0xE0 + cp div 4096, 0x80 + (cp div 64) mod 64, 0x80 + cp mod 64]
      else
        [0xF0 + cp div 262144, 0x80 + (cp div 4096) mod 64,
         0x80 + (cp div 64) mod 64, 0x80 + cp mod 64])"

definition percent :: "nat \<Rightarrow> jsstr" where
  "percent b = [of_char CHR ''%'', HEXDIGIT (b div 16), HEXDIGIT (b mod 16)]"

definition isLead :: "16 word \<Rightarrow> bool" where
  "isLead c = (0xD800 \<le> unat c \<and> unat c \<le> 0xDBFF)"

definition isTrail :: "16 word \<Rightarrow> bool" where
  "isTrail c = (0xDC00 \<le> unat c \<and> unat c \<le> 0xDFFF)"

fun encodeURI_units :: "jsstr \<Rightarrow> js_error + jsstr" where
  "encodeURI_units [] = Inr []"
| "encodeURI_units (c # cs) =
     (if uriUnreserved c then
        (case encodeURI_units cs of Inl e \<Rightarrow> Inl e | Inr r \<Rightarrow> Inr (c # r))
      else if isTrail c then Inl URIError
      else if isLead c then
        (case cs of
           [] \<Rightarrow> Inl URIError
         | d # ds \<Rightarrow>
             if isTrail d then
               (case encodeURI_units ds of
                  Inl e \<Rightarrow> Inl e
                | Inr r \<Rightarrow>
                    Inr (concat (map percent
                           (utf8 ((unat c - 0xD800) * 0x400 + (unat d - 0xDC00) + 0x10000)))
                         @ r))
             else Inl URIError)
      else
        (case encodeURI_units cs of
           Inl e \<Rightarrow> Inl e
         | Inr r \<Rightarrow> Inr (concat (map percent (utf8 (unat c))) @ r)))"

definition encodeURIComponent :: "(rat \<Rightarrow> jsstr) \<Rightarrow> jsval \<Rightarrow> js_error + jsstr" where
  "encodeURIComponent fmt v =
     (case ToString fmt v of Inl e \<Rightarrow> Inl e | Inr s \<Rightarrow> encodeURI_units s)"

section \<open>Environment, collaborators and program state\<close>

text \<open>
  Everything the program reads from outside: the configuration in \<open>process.env\<close>
  (a variable is a string or is unset), the clock in milliseconds, the bytes handed out
  by \<open>crypto.randomBytes\<close>, the platform's \<open>JSON.parse\<close> (\<open>None\<close> is its
  SyntaxError) and its printing of numbers and dates, and the answers of the three
  external services: the email provider, the datastore and the secrets manager.
\<close>

record emailContent =
  mail_to :: jsval
  mail_from :: jsval
  subject :: jsstr
  html :: jsstr

record row =
  row_email :: jsval
  row_token :: jsstr
  row_expiryTime :: int

record env =
  DOMAIN_NAME :: "jsstr option"
  SENDGRID_FROM_EMAIL :: "jsstr option"
  Date_now :: int
  entropy :: "nat \<Rightarrow> 8 word"
  JSON_parse :: "jsstr \<Rightarrow> jsval option"
  Number_toString :: "rat \<Rightarrow> jsstr"
  Date_toString :: "int \<Rightarrow> jsstr"
  sgMail_send :: "emailContent \<Rightarrow> bool"
  sequelize_sync :: bool
  EmailTracking_create :: "row \<Rightarrow> bool"
  getSecretValue :: "jsstr \<Rightarrow> jsval option"

text \<open>
  A collaborator answers as a function of the request: \<open>sgMail_send env c\<close> says whether
  the provider accepts the email \<open>c\<close>, \<open>sequelize_sync env\<close> whether the models can be
  synchronised, \<open>EmailTracking_create env r\<close> whether the row \<open>r\<close> passes the model's
  validation (no attribute may be null, \<open>email\<close> must be an email address) and is
  inserted, and \<open>getSecretValue env n\<close> is the secret stored under \<open>n\<close>, if the
  request succeeds.

  The calls that leave the process are recorded in the order they are made, and so are
  the lines written to the console. The arguments of a console line are kept apart: a
  text, a value printed by \<open>JSON.stringify\<close>, an error object, the \<open>message\<close> or the
  \<open>stack\<close> of an error, and \<open>error.response ? error.response.body : error.message\<close>.
\<close>

datatype call =
    SgSend emailContent
  | SequelizeSync
  | Create row
  | GetSecretValue jsstr
  | SetApiKey jsval

datatype arg =
    Text jsstr
  | Json jsval
  | Thrown js_error
  | MessageOf js_error
  | StackOf js_error
  | ResponseBodyOrMessageOf js_error

datatype console = Log "arg list" | LogError "arg list"

record state =
  calls :: "call list"
  console :: "console list"
  rdsPassword :: jsval
  sendGridApiKey :: jsval

definition initial :: state where
  "initial = \<lparr>calls = [], console = [], rdsPassword = Undefined, sendGridApiKey = Undefined\<rparr>"

text \<open>
  A computation runs on the state and either throws or returns. \<open>andThen\<close> is
  sequencing (also over \<open>await\<close>: a rejected promise throws at the \<open>await\<close>),
  \<open>tryCatch\<close> is \<open>try { ... } catch (error) { ... }\<close>.
\<close>

type_synonym 'a prog = "state \<Rightarrow> (js_error + 'a) \<times> state"

definition ret :: "'a \<Rightarrow> 'a prog" where
  "ret x = (\<lambda>s. (Inr x, s))"

definition throw :: "js_error \<Rightarrow> 'a prog" where
  "throw e = (\<lambda>s. (Inl e, s))"

definition lift :: "js_error + 'a \<Rightarrow> 'a prog" where
  "lift r = (\<lambda>s. (r, s))"

definition andThen :: "'a prog \<Rightarrow> ('a \<Rightarrow> 'b prog) \<Rightarrow> 'b prog" where
  "andThen m f = (\<lambda>s. case m s of (Inl e, s') \<Rightarrow> (Inl e, s') | (Inr x, s') \<Rightarrow> f x s')"

definition tryCatch :: "'a prog \<Rightarrow> (js_error \<Rightarrow> 'a prog) \<Rightarrow> 'a prog" where
  "tryCatch m h = (\<lambda>s. case m s of (Inl e, s') \<Rightarrow> h e s' | (Inr x, s') \<Rightarrow> (Inr x, s'))"

definition console_log :: "arg list \<Rightarrow> unit prog" where
  "console_log as = (\<lambda>s. (Inr (), s\<lparr>console := console s @ [Log as]\<rparr>))"

definition console_error :: "arg list \<Rightarrow> unit prog" where
  "console_error as = (\<lambda>s. (Inr (), s\<lparr>console := console s @ [LogError as]\<rparr>))"

definition outbound :: "call \<Rightarrow> unit prog" where
  "outbound c = (\<lambda>s. (Inr (), s\<lparr>calls := calls s @ [c]\<rparr>))"

definition env_value :: "jsstr option \<Rightarrow> jsval" where
  "env_value v = (case v of None \<Rightarrow> Undefined | Some s \<Rightarrow> Str s)"

text \<open>A value inside a template literal: \<open>`${v}`\<close>.\<close>

definition tpl :: "env \<Rightarrow> jsval \<Rightarrow> jsstr prog" where
  "tpl env v = lift (ToString (Number_toString env) v)"

definition parseJSON :: "env \<Rightarrow> jsval \<Rightarrow> jsval prog" where
  "parseJSON env v =
     andThen (lift (ToString (Number_toString env) v)) (\<lambda>text.
       case JSON_parse env text of
         None \<Rightarrow> throw SyntaxError
       | Some parsed \<Rightarrow> ret parsed)"

definition randomBytes :: "env \<Rightarrow> nat \<Rightarrow> 8 word list" where
  "randomBytes env n = map (entropy env) [0..<n]"

text \<open>\<open>xs[0]\<close> and \<open>xs.length === 0\<close>, both reached on arrays only.\<close>

fun index0 :: "jsval \<Rightarrow> jsval" where
  "index0 (Arr (x # xs)) = x"
| "index0 _ = Undefined"

fun length_is_0 :: "jsval \<Rightarrow> bool" where
  "length_is_0 (Arr xs) = (xs = [])"
| "length_is_0 (Str s) = (s = [])"
| "length_is_0 _ = False"

section \<open>The handler of \<open>index.js\<close>\<close>

definition generateVerificationLink :: "env \<Rightarrow> jsval \<Rightarrow> (jsstr \<times> jsstr \<times> int) prog" where
  "generateVerificationLink env email =
     (let token = toHex (randomBytes env 16);
          expiryTime = Date_now env + 2 * 60 * 1000
      in andThen (tpl env (env_value (DOMAIN_NAME env))) (\<lambda>domain.
         andThen (lift (encodeURIComponent (Number_toString env) email)) (\<lambda>encoded.
         (let link = str ''http://'' @ domain @ str ''/verify?email='' @ encoded
                     @ str ''&token='' @ token
          in andThen (console_log [Text token]) (\<lambda>_.
             ret (token, link, expiryTime))))))"

definition sgMail_sending :: "env \<Rightarrow> emailContent \<Rightarrow> unit prog" where
  "sgMail_sending env emailContent =
     andThen (outbound (SgSend emailContent)) (\<lambda>_.
       if sgMail_send env emailContent then ret () else throw SendGridError)"

definition sendVerificationEmail :: "env \<Rightarrow> jsval \<Rightarrow> jsstr \<Rightarrow> unit prog" where
  \<open>sendVerificationEmail env email link =
     (let emailContent =
           \<lparr>mail_to = email,
            mail_from = env_value (SENDGRID_FROM_EMAIL env),
            subject = str ''Verify Your Email'',
            html = str (''\<newline>      <p>Thank you for signing up! Please verify your email ''
                        @ ''address by clicking the link below:</p>\<newline>      <p><a href="'')
                   @ link
                   @ str (''">Verify Email</a></p>\<newline>''
                        @ ''      <p>This link will expire in 2 minutes.</p>\<newline>    '')\<rparr>
      in tryCatch (sgMail_sending env emailContent)
           (\<lambda>error. throw (Error (str ''Failed to send verification email''))))\<close>

definition sequelize_syncing :: "env \<Rightarrow> unit prog" where
  "sequelize_syncing env =
     andThen (outbound SequelizeSync) (\<lambda>_.
       if sequelize_sync env then ret () else throw SequelizeError)"

definition EmailTracking_creating :: "env \<Rightarrow> row \<Rightarrow> unit prog" where
  "EmailTracking_creating env r =
     andThen (outbound (Create r)) (\<lambda>_.
       if EmailTracking_create env r then ret () else throw SequelizeError)"

text \<open>The \<open>try\<close> block of the handler, and the handler around it.\<close>

definition handler_try :: "env \<Rightarrow> jsval \<Rightarrow> unit prog" where
  "handler_try env event =
     andThen (lift (get_prop event (str ''Records''))) (\<lambda>Records.
       if \<not> truthy Records \<or> \<not> isArray Records \<or> length_is_0 Records
       then throw (Error (str ''Invalid event structure: No Records found''))
       else
       andThen (lift (get_prop (index0 Records) (str ''Sns''))) (\<lambda>Sns.
       andThen (lift (get_prop Sns (str ''Message''))) (\<lambda>Message.
       andThen (parseJSON env Message) (\<lambda>snsMessage.
       andThen (lift (get_prop snsMessage (str ''email''))) (\<lambda>email.
       if \<not> truthy email
       then throw (Error (str ''Invalid SNS message: Missing email field''))
       else
       andThen (generateVerificationLink env email) (\<lambda>(token, link, expiryTime).
       andThen (sendVerificationEmail env email link) (\<lambda>_.
       andThen (sequelize_syncing env) (\<lambda>_.
       andThen (console_log [Text token]) (\<lambda>_.
       EmailTracking_creating env
         \<lparr>row_email = email, row_token = token, row_expiryTime = expiryTime\<rparr>)))))))))"

definition handler :: "env \<Rightarrow> jsval \<Rightarrow> unit prog" where
  "handler env event =
     tryCatch (handler_try env event)
       (\<lambda>error. throw (Error (str ''Verification process failed'')))"

section \<open>The handler of the variant that reads its secrets at startup\<close>

definition getSecret :: "env \<Rightarrow> jsstr \<Rightarrow> jsval prog" where
  "getSecret env secretName =
     tryCatch
       (andThen (outbound (GetSecretValue secretName)) (\<lambda>_.
          case getSecretValue env secretName of
            None \<Rightarrow> throw SecretsManagerError
          | Some secret \<Rightarrow>
              andThen (lift (get_prop secret (str ''SecretString''))) (\<lambda>SecretString.
              parseJSON env SecretString)))
       (\<lambda>error.
          andThen (console_error
                     [Text (str ''Error retrieving secret '' @ secretName @ str '':''),
                      Thrown error]) (\<lambda>_.
          throw (Error (str ''Failed to retrieve secret: '' @ secretName))))"

text \<open>The body of the function that the module calls, without awaiting it, when it loads.\<close>

definition initSecrets :: "env \<Rightarrow> unit prog" where
  "initSecrets env =
     tryCatch
       (andThen (getSecret env (str ''rds-db-password'')) (\<lambda>rdsSecret.
        andThen (lift (get_prop rdsSecret (str ''password''))) (\<lambda>password.
        andThen (\<lambda>s. (Inr (), s\<lparr>rdsPassword := password\<rparr>)) (\<lambda>_.
        andThen (getSecret env (str ''sendgrid-api-key'')) (\<lambda>sendGridSecret.
        andThen (lift (get_prop sendGridSecret (str ''api_key''))) (\<lambda>api_key.
        andThen (\<lambda>s. (Inr (), s\<lparr>sendGridApiKey := api_key\<rparr>)) (\<lambda>_.
        outbound (SetApiKey api_key))))))))
       (\<lambda>error. console_error [Text (str ''Error initializing secrets:''), MessageOf error])"

definition generateVerificationLink_sm ::
    "env \<Rightarrow> jsval \<Rightarrow> (jsstr \<times> jsstr \<times> int) prog" where
  "generateVerificationLink_sm env email =
     (let token = toHex (randomBytes env 20);
          expirationTime = Date_now env + 2 * 60 * 1000
      in andThen (tpl env (env_value (DOMAIN_NAME env))) (\<lambda>domain.
         andThen (lift (encodeURIComponent (Number_toString env) email)) (\<lambda>encoded.
         (let link = str ''http://'' @ domain @ str ''/verify?email='' @ encoded
                     @ str ''&token='' @ token
          in andThen (tpl env email) (\<lambda>shown.
             andThen (console_log
                        [Text (str ''Generated token: '' @ token @ str '', expiry: ''
                               @ Date_toString env expirationTime
                               @ str '', for email: '' @ shown)]) (\<lambda>_.
             ret (token, link, expirationTime)))))))"

definition sendVerificationEmail_sm :: "env \<Rightarrow> jsval \<Rightarrow> jsstr \<Rightarrow> unit prog" where
  \<open>sendVerificationEmail_sm env email link =
     (let emailContent =
           \<lparr>mail_to = email,
            mail_from = env_value (SENDGRID_FROM_EMAIL env),
            subject = str ''Verify Your Email'',
            html = str (''\<newline>      <p>Thank you for signing up! Please verify your email ''
                        @ ''address by clicking the link below:</p>\<newline>      <p><a href="'')
                   @ link
                   @ str (''">Verify Email</a></p>\<newline>''
                        @ ''      <p>This link will expire in 2 minutes.</p>\<newline>    '')\<rparr>
      in tryCatch
           (andThen (tpl env email) (\<lambda>shown.
            andThen (console_log
                       [Text (str ''Attempting to send email to '' @ shown
                              @ str '' with link: '' @ link)]) (\<lambda>_.
            andThen (sgMail_sending env emailContent) (\<lambda>_.
            console_log [Text (str ''Verification email sent to '' @ shown)]))))
           (\<lambda>error.
              andThen (console_error
                         [Text (str ''Error sending email:''), ResponseBodyOrMessageOf error]) (\<lambda>_.
              throw (Error (str ''Failed to send verification email'')))))\<close>

definition handler_sm_try :: "env \<Rightarrow> jsval \<Rightarrow> unit prog" where
  "handler_sm_try env event =
     andThen (lift (get_prop event (str ''Records''))) (\<lambda>Records.
       if \<not> truthy Records \<or> \<not> isArray Records \<or> length_is_0 Records
       then
         andThen (console_error [Text (str ''Invalid event structure: No Records found'')]) (\<lambda>_.
         throw (Error (str ''Invalid event structure: No Records found'')))
       else
       andThen (lift (get_prop (index0 Records) (str ''Sns''))) (\<lambda>Sns.
       andThen (lift (get_prop Sns (str ''Message''))) (\<lambda>Message.
       andThen (parseJSON env Message) (\<lambda>snsMessage.
       andThen (lift (get_prop snsMessage (str ''email''))) (\<lambda>email.
       if \<not> truthy email
       then
         andThen (console_error [Text (str ''Invalid SNS message: Missing email field'')]) (\<lambda>_.
         throw (Error (str ''Invalid SNS message: Missing email field'')))
       else
       andThen (tpl env email) (\<lambda>shown.
       andThen (console_log
                  [Text (str ''Received email: '' @ shown @ str '' from SNS message'')]) (\<lambda>_.
       andThen (generateVerificationLink_sm env email) (\<lambda>(token, link, expirationTime).
       andThen (sendVerificationEmail_sm env email link) (\<lambda>_.
       andThen (console_log [Text (str ''Syncing database...'')]) (\<lambda>_.
       andThen (sequelize_syncing env) (\<lambda>_.
       andThen (console_log
                  [Text (str ''Database synced. Saving email tracking details...'')]) (\<lambda>_.
       andThen (EmailTracking_creating env
                  \<lparr>row_email = email, row_token = token,
                   row_expiryTime = expirationTime\<rparr>) (\<lambda>_.
       console_log
         [Text (str ''Verification email sent and logged for '' @ shown)])))))))))))))"

definition handler_sm :: "env \<Rightarrow> jsval \<Rightarrow> unit prog" where
  "handler_sm env event =
     andThen (console_log [Text (str ''Event received:''), Json event]) (\<lambda>_.
     tryCatch (handler_sm_try env event)
       (\<lambda>error.
          andThen (console_error
                     [Text (str ''Error handling verification process:''), MessageOf error]) (\<lambda>_.
          andThen (console_error [StackOf error]) (\<lambda>_.
          throw (Error (str ''Verification process failed''))))))"

section \<open>The process as the specification describes it\<close>

text \<open>
  The link format, the expiry window and the outbound email request of the specification:
  \<open>http://<DOMAIN_NAME>/verify?email=<url-encoded email>&token=<hex token>\<close>,
  creation time plus two minutes, and
  \<open>{ to, from, subject: "Verify Your Email", html: <template containing link> }\<close>.
  The template is the one both source files share.
\<close>

definition spec_link :: "jsstr \<Rightarrow> jsstr \<Rightarrow> jsstr \<Rightarrow> jsstr" where
  "spec_link domain encodedEmail tok =
     str ''http://'' @ domain @ str ''/verify?email='' @ encodedEmail @ str ''&token='' @ tok"

definition spec_expiryTime :: "int \<Rightarrow> int" where
  "spec_expiryTime creationTime = creationTime + 120 * 1000"

definition spec_html :: "jsstr \<Rightarrow> jsstr" where
  \<open>spec_html link =
     str (''\<newline>      <p>Thank you for signing up! Please verify your email ''
          @ ''address by clicking the link below:</p>\<newline>      <p><a href="'')
     @ link
     @ str (''">Verify Email</a></p>\<newline>''
          @ ''      <p>This link will expire in 2 minutes.</p>\<newline>    '')\<close>

definition spec_emailContent :: "jsval \<Rightarrow> jsval \<Rightarrow> jsstr \<Rightarrow> emailContent" where
  "spec_emailContent recipient sender link =
     \<lparr>mail_to = recipient, mail_from = sender,
      subject = str ''Verify Your Email'', html = spec_html link\<rparr>"

text \<open>How \<open>process.env.DOMAIN_NAME\<close> prints inside the link.\<close>

definition domain_text :: "env \<Rightarrow> jsstr" where
  "domain_text env = (case DOMAIN_NAME env of None \<Rightarrow> str ''undefined'' | Some d \<Rightarrow> d)"

text \<open>
  The reads and checks that open the \<open>try\<close> block of both handlers, up to the test of
  \<open>email\<close>: they touch no state, so they are a function of the event. The result is
  the error thrown or the address to be verified.
\<close>

definition extracted_email :: "env \<Rightarrow> jsval \<Rightarrow> js_error + jsval" where
  "extracted_email env event =
     (case get_prop event (str ''Records'') of
        Inl e \<Rightarrow> Inl e
      | Inr Records \<Rightarrow>
          if \<not> truthy Records \<or> \<not> isArray Records \<or> length_is_0 Records
          then Inl (Error (str ''Invalid event structure: No Records found''))
          else
            (case get_prop (index0 Records) (str ''Sns'') of
               Inl e \<Rightarrow> Inl e
             | Inr Sns \<Rightarrow>
                 (case get_prop Sns (str ''Message'') of
                    Inl e \<Rightarrow> Inl e
                  | Inr msg \<Rightarrow>
                      (case ToString (Number_toString env) msg of
                         Inl e \<Rightarrow> Inl e
                       | Inr text \<Rightarrow>
                           (case JSON_parse env text of
                              None \<Rightarrow> Inl SyntaxError
                            | Some snsMessage \<Rightarrow>
                                (case get_prop snsMessage (str ''email'') of
                                   Inl e \<Rightarrow> Inl e
                                 | Inr email \<Rightarrow>
                                     if \<not> truthy email
                                     then Inl (Error
                                            (str ''Invalid SNS message: Missing email field''))
                                     else Inr email))))))"

text \<open>
  Steps 4 and 5 of the process: send, then synchronise and write the row; the first
  failure ends it. The result is the outcome of the \<open>try\<close> block and the calls made.
\<close>

definition dispatch_and_persist ::
    "env \<Rightarrow> jsval \<Rightarrow> jsstr \<Rightarrow> jsstr \<Rightarrow> (js_error + unit) \<times> call list" where
  "dispatch_and_persist env email link tok =
     (let c = spec_emailContent email (env_value (SENDGRID_FROM_EMAIL env)) link;
          r = \<lparr>row_email = email, row_token = tok,
               row_expiryTime = spec_expiryTime (Date_now env)\<rparr>
      in if \<not> sgMail_send env c
         then (Inl (Error (str ''Failed to send verification email'')), [SgSend c])
         else if \<not> sequelize_sync env
         then (Inl SequelizeError, [SgSend c, SequelizeSync])
         else ((if EmailTracking_create env r then Inr () else Inl SequelizeError),
               [SgSend c, SequelizeSync, Create r]))"

definition process_outcome :: "env \<Rightarrow> jsval \<Rightarrow> nat \<Rightarrow> (js_error + unit) \<times> call list" where
  "process_outcome env event n =
     (case extracted_email env event of
        Inl e \<Rightarrow> (Inl e, [])
      | Inr email \<Rightarrow>
          (case encodeURIComponent (Number_toString env) email of
             Inl e \<Rightarrow> (Inl e, [])
           | Inr enc \<Rightarrow>
               dispatch_and_persist env email
                 (spec_link (domain_text env) enc (toHex (randomBytes env n)))
                 (toHex (randomBytes env n))))"

section \<open>Example inputs\<close>

text \<open>
  The event of the end-to-end scenario, and an environment for it. \<open>example_parse\<close>
  tabulates \<open>JSON.parse\<close> on the message texts used below; the examples print no
  number and show one instant.
\<close>

definition example_parse :: "jsstr \<Rightarrow> jsval option" where
  \<open>example_parse text =
     (if text = str ''{"email":"user@example.com"}''
      then Some (Obj [(str ''email'', Str (str ''user@example.com''))])
      else if text = str ''{"email":""}''
      then Some (Obj [(str ''email'', Str [])])
      else if text = str ''{}''
      then Some (Obj [])
      else None)\<close>

definition example_env :: env where
  "example_env =
     \<lparr>DOMAIN_NAME = Some (str ''example.org''),
      SENDGRID_FROM_EMAIL = Some (str ''noreply@example.org''),
      Date_now = 1700000000000,
      entropy = (\<lambda>i. of_nat (17 * i + 3)),
      JSON_parse = example_parse,
      Number_toString = (\<lambda>q. str ''0''),
      Date_toString = (\<lambda>t. str ''Tue Nov 14 2023 22:15:20 GMT+0000 (Coordinated Universal Time)''),
      sgMail_send = (\<lambda>c. True),
      sequelize_sync = True,
      EmailTracking_create = (\<lambda>r. True),
      getSecretValue = (\<lambda>n. None)\<rparr>"

definition event_with_message :: "jsstr \<Rightarrow> jsval" where
  "event_with_message text =
     Obj [(str ''Records'', Arr [Obj [(str ''Sns'', Obj [(str ''Message'', Str text)])]])]"

definition example_event :: jsval where
  \<open>example_event = event_with_message (str ''{"email":"user@example.com"}'')\<close>

definition example_token :: jsstr where
  "example_token = str ''031425364758697a8b9cadbecfe0f102''"

definition example_link :: jsstr where
  "example_link =
     str ''http://example.org/verify?email=user%40example.com&token='' @ example_token"

text \<open>The same environment with an email provider that rejects every request.\<close>

definition rejecting_env :: env where
  "rejecting_env = example_env\<lparr>sgMail_send := (\<lambda>c. False)\<rparr>"

text \<open>
  An instance started without its configuration: \<open>DOMAIN_NAME\<close> is unset, the secrets
  manager answers no request (as in \<open>example_env\<close>), and the email provider, never given
  an API key, rejects every request.
\<close>

definition unconfigured_env :: env where
  "unconfigured_env = example_env\<lparr>DOMAIN_NAME := None, sgMail_send := (\<lambda>c. False)\<rparr>"

section \<open>Facts about the model\<close>

lemmas prog_defs = andThen_def tryCatch_def lift_def ret_def throw_def console_log_def
  console_error_def outbound_def tpl_def

lemma ToString_domain: "ToString f (env_value (DOMAIN_NAME env)) = Inr (domain_text env)"
  by (simp add: env_value_def domain_text_def split: option.splits)

lemma generateVerificationLink_run:
  assumes "encodeURIComponent (Number_toString env) email = Inr enc"
  shows "generateVerificationLink env email s =
           (Inr (toHex (randomBytes env 16),
                 spec_link (domain_text env) enc (toHex (randomBytes env 16)),
                 spec_expiryTime (Date_now env)),
            s\<lparr>console := console s @ [Log [Text (toHex (randomBytes env 16))]]\<rparr>)"
  using assms
  by (simp add: generateVerificationLink_def prog_defs Let_def ToString_domain spec_link_def
      spec_expiryTime_def)

lemma generateVerificationLink_throw:
  assumes "encodeURIComponent (Number_toString env) email = Inl e"
  shows "generateVerificationLink env email s = (Inl e, s)"
  using assms
  by (simp add: generateVerificationLink_def prog_defs Let_def ToString_domain)

lemma generateVerificationLink_sm_run:
  assumes "encodeURIComponent (Number_toString env) email = Inr enc"
    and "ToString (Number_toString env) email = Inr shown"
  shows "generateVerificationLink_sm env email s =
           (Inr (toHex (randomBytes env 20),
                 spec_link (domain_text env) enc (toHex (randomBytes env 20)),
                 spec_expiryTime (Date_now env)),
            s\<lparr>console := console s @
               [Log [Text (str ''Generated token: '' @ toHex (randomBytes env 20)
                           @ str '', expiry: '' @ Date_toString env (Date_now env + 120000)
                           @ str '', for email: '' @ shown)]]\<rparr>)"
  using assms
  by (simp add: generateVerificationLink_sm_def prog_defs Let_def ToString_domain spec_link_def
      spec_expiryTime_def)

lemma generateVerificationLink_sm_throw:
  assumes "encodeURIComponent (Number_toString env) email = Inl e"
  shows "generateVerificationLink_sm env email s = (Inl e, s)"
  using assms
  by (simp add: generateVerificationLink_sm_def prog_defs Let_def ToString_domain)

lemma sendVerificationEmail_run:
  "sendVerificationEmail env email link s =
     ((if sgMail_send env (spec_emailContent email (env_value (SENDGRID_FROM_EMAIL env)) link)
       then Inr () else Inl (Error (str ''Failed to send verification email''))),
      s\<lparr>calls := calls s @
           [SgSend (spec_emailContent email (env_value (SENDGRID_FROM_EMAIL env)) link)]\<rparr>)"
  by (simp add: sendVerificationEmail_def sgMail_sending_def prog_defs Let_def
      spec_emailContent_def spec_html_def)

lemma sendVerificationEmail_sm_run:
  assumes "ToString (Number_toString env) email = Inr shown"
  shows "sendVerificationEmail_sm env email link s =
     (if sgMail_send env (spec_emailContent email (env_value (SENDGRID_FROM_EMAIL env)) link)
      then (Inr (),
            s\<lparr>calls := calls s @
                 [SgSend (spec_emailContent email (env_value (SENDGRID_FROM_EMAIL env)) link)],
              console := console s @
                [Log [Text (str ''Attempting to send email to '' @ shown
                            @ str '' with link: '' @ link)],
                 Log [Text (str ''Verification email sent to '' @ shown)]]\<rparr>)
      else (Inl (Error (str ''Failed to send verification email'')),
            s\<lparr>calls := calls s @
                 [SgSend (spec_emailContent email (env_value (SENDGRID_FROM_EMAIL env)) link)],
              console := console s @
                [Log [Text (str ''Attempting to send email to '' @ shown
                            @ str '' with link: '' @ link)],
                 LogError [Text (str ''Error sending email:''),
                           ResponseBodyOrMessageOf SendGridError]]\<rparr>))"
  using assms
  by (simp add: sendVerificationEmail_sm_def sgMail_sending_def prog_defs Let_def
      spec_emailContent_def spec_html_def)

lemma handler_try_outcome:
  "fst (handler_try env event s) = fst (process_outcome env event 16) \<and>
   calls (snd (handler_try env event s)) = calls s @ snd (process_outcome env event 16)"
  by (auto simp: handler_try_def process_outcome_def extracted_email_def
      dispatch_and_persist_def parseJSON_def
      sequelize_syncing_def EmailTracking_creating_def prog_defs Let_def
      generateVerificationLink_run generateVerificationLink_throw sendVerificationEmail_run
      split: sum.splits option.splits)

lemma handler_sm_try_outcome:
  "fst (handler_sm_try env event s) = fst (process_outcome env event 20) \<and>
   calls (snd (handler_sm_try env event s)) = calls s @ snd (process_outcome env event 20)"
  by (auto simp: handler_sm_try_def process_outcome_def extracted_email_def
      dispatch_and_persist_def parseJSON_def
      sequelize_syncing_def EmailTracking_creating_def prog_defs Let_def
      generateVerificationLink_sm_run generateVerificationLink_sm_throw
      sendVerificationEmail_sm_run encodeURIComponent_def
      split: sum.splits option.splits)

lemma handler_try_rejects:
  assumes "extracted_email env event = Inl e"
  shows "handler_try env event s = (Inl e, s)"
  using assms
  by (auto simp: handler_try_def extracted_email_def parseJSON_def prog_defs
      split: sum.splits option.splits if_splits)

lemma handler_outcome:
  "fst (handler env event s) =
     (case fst (process_outcome env event 16) of
        Inl e \<Rightarrow> Inl (Error (str ''Verification process failed''))
      | Inr u \<Rightarrow> Inr u)"
  "calls (snd (handler env event s)) = calls s @ snd (process_outcome env event 16)"
  using handler_try_outcome [of env event s]
  by (auto simp: handler_def tryCatch_def throw_def split: prod.splits sum.splits)

lemma handler_sm_outcome:
  "fst (handler_sm env event s) =
     (case fst (process_outcome env event 20) of
        Inl e \<Rightarrow> Inl (Error (str ''Verification process failed''))
      | Inr u \<Rightarrow> Inr u)"
  "calls (snd (handler_sm env event s)) = calls s @ snd (process_outcome env event 20)"
  using handler_sm_try_outcome
          [of env event "s\<lparr>console := console s @ [Log [Text (str ''Event received:''), Json event]]\<rparr>"]
  by (auto simp: handler_sm_def prog_defs split: prod.splits sum.splits)

lemma extracted_email_chain:
  assumes "get_prop event (str ''Records'') = Inr (Arr (record0 # others))"
    and "get_prop record0 (str ''Sns'') = Inr Sns"
    and "get_prop Sns (str ''Message'') = Inr msg"
    and "ToString (Number_toString env) msg = Inr text"
    and "JSON_parse env text = Some snsMessage"
    and "get_prop snsMessage (str ''email'') = Inr email"
  shows "extracted_email env event =
           (if truthy email then Inr email
            else Inl (Error (str ''Invalid SNS message: Missing email field'')))"
  using assms by (simp add: extracted_email_def)

lemma nonempty_array:
  "truthy v \<and> isArray v \<and> \<not> length_is_0 v \<longleftrightarrow> (\<exists>x xs. v = Arr (x # xs))"
  by (cases v rule: length_is_0.cases) (auto simp: neq_Nil_conv)

lemma extracted_email_Inr:
  assumes "extracted_email env event = Inr email"
  shows "\<exists>record0 others Sns msg text snsMessage.
           get_prop event (str ''Records'') = Inr (Arr (record0 # others)) \<and>
           get_prop record0 (str ''Sns'') = Inr Sns \<and>
           get_prop Sns (str ''Message'') = Inr msg \<and>
           ToString (Number_toString env) msg = Inr text \<and>
           JSON_parse env text = Some snsMessage \<and>
           get_prop snsMessage (str ''email'') = Inr email \<and>
           truthy email"
proof -
  from assms obtain v where v: "get_prop event (str ''Records'') = Inr v"
    and ok: "truthy v \<and> isArray v \<and> \<not> length_is_0 v"
    by (auto simp: extracted_email_def split: sum.splits if_splits)
  from ok obtain x xs where arr: "v = Arr (x # xs)"
    using nonempty_array by blast
  from assms v arr show ?thesis
    by (auto simp: extracted_email_def split: sum.splits if_splits option.splits)
qed

lemma length_toHex: "length (toHex bs) = 2 * length bs"
  by (induction bs) (simp_all add: toHex_def)

lemma hexdigit_in: "n < 16 \<Longrightarrow> hexdigit n \<in> set (str ''0123456789abcdef'')"
proof -
  assume "n < 16"
  then have "''0123456789abcdef'' ! n \<in> set ''0123456789abcdef''"
    by (intro nth_mem) simp
  then show ?thesis
    unfolding hexdigit_def str_def set_map by (rule imageI)
qed

lemma isHexString_toHex: "isHexString (toHex bs)"
proof -
  have "unat b div 16 < 16" for b :: "8 word"
    using unsigned_less [of b, where ?'a = nat] by simp
  then show ?thesis
    by (auto simp: isHexString_def toHex_def intro!: hexdigit_in)
qed

lemma length_randomBytes: "length (randomBytes env n) = n"
  by (simp add: randomBytes_def)

section \<open>Facts about the examples and the outcome\<close>

lemma process_outcome_send_rejected:
  assumes "SgSend c \<in> set (snd (process_outcome env event n))"
    and "\<not> sgMail_send env c"
  shows "snd (process_outcome env event n) = [SgSend c]"
    and "\<exists>e. fst (process_outcome env event n) = Inl e"
  using assms
  by (auto simp: process_outcome_def dispatch_and_persist_def Let_def
      split: sum.splits if_splits)

lemma example_message_text:
  \<open>ToString f (Str (str ''{"email":"user@example.com"}'')) = Inr (str ''{"email":"user@example.com"}'')\<close>
  by simp

lemma example_extracted:
  assumes "JSON_parse env = example_parse"
  shows "extracted_email env example_event = Inr (Str (str ''user@example.com''))"
  using assms
  by (simp add: extracted_email_def example_event_def event_with_message_def example_parse_def
      str_def)

lemma example_encoded:
  "encodeURIComponent f (Str (str ''user@example.com'')) = Inr (str ''user%40example.com'')"
  by (simp add: encodeURIComponent_def str_def uriUnreserved_def isTrail_def isLead_def
      utf8_def percent_def HEXDIGIT_def)

lemma example_token_16:
  assumes "entropy env = (\<lambda>i. of_nat (17 * i + 3))"
  shows "toHex (randomBytes env 16) = example_token"
  using assms
  by (simp add: randomBytes_def toHex_def hexdigit_def example_token_def str_def upt_rec)

lemma example_link_eq:
  "spec_link (str ''example.org'') (str ''user%40example.com'') example_token = example_link"
  by (simp add: spec_link_def example_link_def str_def)

lemma rejecting_run:
  "process_outcome rejecting_env example_event 16 =
     (Inl (Error (str ''Failed to send verification email'')),
      [SgSend (spec_emailContent (Str (str ''user@example.com''))
                 (Str (str ''noreply@example.org'')) example_link)])"
  by (simp add: process_outcome_def example_extracted example_encoded example_token_16
      dispatch_and_persist_def Let_def domain_text_def env_value_def example_link_eq
      rejecting_env_def example_env_def)

lemma handler_rejects:
  assumes "extracted_email env event = Inl e"
  shows "handler env event s = (Inl (Error (str ''Verification process failed'')), s)"
    and "fst (handler_try env event s) = Inl e"
    and "fst (handler_sm env event s) = Inl (Error (str ''Verification process failed''))"
    and "calls (snd (handler_sm env event s)) = calls s"
    and "fst (handler_sm_try env event s) = Inl e"
  using assms
  by (simp_all add: handler_def tryCatch_def throw_def handler_try_rejects handler_sm_outcome
      handler_sm_try_outcome process_outcome_def)

lemma get_prop_error: "get_prop v k = Inl e \<Longrightarrow> e = TypeError"
  by (cases v) (auto split: option.splits)

lemma extracted_email_no_records:
  assumes "\<nexists>record0 others. get_prop event (str ''Records'') = Inr (Arr (record0 # others))"
  shows "extracted_email env event = Inl TypeError \<or>
         extracted_email env event = Inl (Error (str ''Invalid event structure: No Records found''))"
proof (cases "get_prop event (str ''Records'')")
  case (Inl e)
  then have "e = TypeError"
    by (rule get_prop_error)
  with Inl show ?thesis
    by (simp add: extracted_email_def)
next
  case (Inr v)
  with assms have "\<not> (truthy v \<and> isArray v \<and> \<not> length_is_0 v)"
    unfolding nonempty_array by simp
  then have "\<not> truthy v \<or> \<not> isArray v \<or> length_is_0 v"
    by simp
  with Inr show ?thesis
    by (simp add: extracted_email_def)
qed

lemma extracted_email_no_email:
  assumes "get_prop event (str ''Records'') = Inr (Arr (record0 # others))"
    and "get_prop record0 (str ''Sns'') = Inr Sns"
    and "get_prop Sns (str ''Message'') = Inr msg"
    and "ToString (Number_toString env) msg = Inr text"
    and "JSON_parse env text = None \<or>
         (\<exists>snsMessage. JSON_parse env text = Some snsMessage \<and>
            (\<forall>v. get_prop snsMessage (str ''email'') = Inr v \<longrightarrow> v = Undefined))"
  shows "extracted_email env event = Inl SyntaxError \<or>
         extracted_email env event = Inl TypeError \<or>
         extracted_email env event = Inl (Error (str ''Invalid SNS message: Missing email field''))"
  using assms
  by (auto simp: extracted_email_def split: sum.splits dest: get_prop_error)

lemma not_json_text: "example_parse (str ''not json'') = None"
  by (simp add: example_parse_def str_def)

lemma empty_email_text:
  \<open>example_parse (str ''{"email":""}'') = Some (Obj [(str ''email'', Str [])])\<close>
  by (simp add: example_parse_def str_def)

lemma event_with_message_reads:
  "get_prop (event_with_message text) (str ''Records'') =
     Inr (Arr [Obj [(str ''Sns'', Obj [(str ''Message'', Str text)])]])"
  "get_prop (Obj [(str ''Sns'', Obj [(str ''Message'', Str text)])]) (str ''Sns'') =
     Inr (Obj [(str ''Message'', Str text)])"
  "get_prop (Obj [(str ''Message'', Str text)]) (str ''Message'') = Inr (Str text)"
  by (simp_all add: event_with_message_def)

lemma encode_ToString:
  "encodeURIComponent f v = Inr enc \<Longrightarrow> \<exists>shown. ToString f v = Inr shown"
  by (auto simp: encodeURIComponent_def split: sum.splits)

lemma domain_text_Some: "DOMAIN_NAME env = Some domain \<Longrightarrow> domain_text env = domain"
  by (simp add: domain_text_def)

lemma process_outcome_valid:
  assumes "extracted_email env event = Inr email"
    and "encodeURIComponent (Number_toString env) email = Inr enc"
  shows "\<exists>rest. snd (process_outcome env event n) =
           SgSend (spec_emailContent email (env_value (SENDGRID_FROM_EMAIL env))
                     (spec_link (domain_text env) enc (toHex (randomBytes env n)))) # rest"
  using assms
  by (simp add: process_outcome_def dispatch_and_persist_def Let_def)

lemma process_outcome_create:
  assumes "Create rw \<in> set (snd (process_outcome env event n))"
  shows "extracted_email env event = Inr (row_email rw)"
    and "row_token rw = toHex (randomBytes env n)"
    and "row_expiryTime rw = spec_expiryTime (Date_now env)"
    and "\<exists>c. snd (process_outcome env event n) = [SgSend c, SequelizeSync, Create rw]"
  using assms
  by (auto simp: process_outcome_def dispatch_and_persist_def Let_def
      split: sum.splits if_splits)

lemma process_outcome_success:
  assumes "fst (process_outcome env event n) = Inr u"
  shows "\<exists>c rw. snd (process_outcome env event n) = [SgSend c, SequelizeSync, Create rw] \<and>
           row_expiryTime rw = spec_expiryTime (Date_now env)"
  using assms
  by (auto simp: process_outcome_def dispatch_and_persist_def Let_def
      split: sum.splits if_splits)

lemma generated_expiry:
  assumes "generateVerificationLink env email s = (Inr (t, l, x), s1) \<or>
           generateVerificationLink_sm env email s = (Inr (t, l, x), s1)"
  shows "x = spec_expiryTime (Date_now env)"
proof (cases "encodeURIComponent (Number_toString env) email")
  case (Inl e)
  with assms show ?thesis
    by (simp add: generateVerificationLink_throw generateVerificationLink_sm_throw)
next
  case (Inr enc)
  then obtain shown where "ToString (Number_toString env) email = Inr shown"
    using encode_ToString by blast
  with Inr assms show ?thesis
    by (auto simp: generateVerificationLink_run generateVerificationLink_sm_run)
qed

lemma example_token_20:
  assumes "entropy env = (\<lambda>i. of_nat (17 * i + 3))"
  shows "toHex (randomBytes env 20) = example_token @ str ''13243546''"
  using assms
  by (simp add: randomBytes_def toHex_def hexdigit_def example_token_def str_def upt_rec)

lemma example_run:
  "process_outcome example_env example_event 16 =
     (Inr (),
      [SgSend (spec_emailContent (Str (str ''user@example.com''))
                 (Str (str ''noreply@example.org'')) example_link),
       SequelizeSync,
       Create \<lparr>row_email = Str (str ''user@example.com''), row_token = example_token,
               row_expiryTime = 1700000120000\<rparr>])"
  by (simp add: process_outcome_def example_extracted example_encoded example_token_16
      dispatch_and_persist_def Let_def domain_text_def env_value_def example_link_eq
      spec_expiryTime_def example_env_def)

lemma example_chain:
  assumes "JSON_parse env = example_parse"
  shows \<open>get_prop example_event (str ''Records'') =
           Inr (Arr [Obj [(str ''Sns'',
                           Obj [(str ''Message'', Str (str ''{"email":"user@example.com"}''))])]])\<close>
    and \<open>get_prop (Obj [(str ''Sns'',
                           Obj [(str ''Message'', Str (str ''{"email":"user@example.com"}''))])])
           (str ''Sns'') =
           Inr (Obj [(str ''Message'', Str (str ''{"email":"user@example.com"}''))])\<close>
    and \<open>get_prop (Obj [(str ''Message'', Str (str ''{"email":"user@example.com"}''))])
           (str ''Message'') = Inr (Str (str ''{"email":"user@example.com"}''))\<close>
    and \<open>ToString (Number_toString env) (Str (str ''{"email":"user@example.com"}'')) =
           Inr (str ''{"email":"user@example.com"}'')\<close>
    and \<open>JSON_parse env (str ''{"email":"user@example.com"}'') =
           Some (Obj [(str ''email'', Str (str ''user@example.com''))])\<close>
    and "get_prop (Obj [(str ''email'', Str (str ''user@example.com''))]) (str ''email'') =
           Inr (Str (str ''user@example.com''))"
    and "truthy (Str (str ''user@example.com''))"
  using assms
  by (simp_all add: example_event_def event_with_message_reads example_parse_def)
     (simp add: str_def)

lemma ToString_error:
  "ToString f v = Inl e \<Longrightarrow> e = TypeError"
  "join f vs = Inl e \<Longrightarrow> e = TypeError"
  by (induction f v and f vs rule: ToString_join.induct)
     (auto split: option.splits sum.splits if_splits)

lemma encodeURI_units_error: "encodeURI_units s = Inl e \<Longrightarrow> e = URIError"
  by (induction s rule: encodeURI_units.induct)
     (auto split: sum.splits if_splits list.splits)

lemma encodeURIComponent_error:
  "encodeURIComponent f v = Inl e \<Longrightarrow> e = TypeError \<or> e = URIError"
  by (auto simp: encodeURIComponent_def split: sum.splits
      dest: ToString_error(1) encodeURI_units_error)

lemma extracted_email_error:
  assumes "extracted_email env event = Inl e"
  shows "e \<in> {Error (str ''Invalid event structure: No Records found''), TypeError,
              SyntaxError, Error (str ''Invalid SNS message: Missing email field'')}"
  using assms
  by (auto simp: extracted_email_def split: sum.splits if_splits option.splits
      dest: get_prop_error ToString_error(1))

lemma process_outcome_error:
  assumes "fst (process_outcome env event n) = Inl e"
  shows "e \<in> {Error (str ''Invalid event structure: No Records found''), TypeError,
              SyntaxError, Error (str ''Invalid SNS message: Missing email field''),
              URIError, Error (str ''Failed to send verification email''), SequelizeError}"
proof (cases "extracted_email env event")
  case (Inl e')
  with assms have "e' = e"
    by (simp add: process_outcome_def)
  with extracted_email_error [OF Inl] show ?thesis
    by auto
next
  case (Inr email)
  show ?thesis
  proof (cases "encodeURIComponent (Number_toString env) email")
    case (Inl e')
    with Inr assms have "e' = e"
      by (simp add: process_outcome_def)
    with encodeURIComponent_error [OF Inl] show ?thesis
      by auto
  next
    case enc: (Inr encoded)
    with Inr assms show ?thesis
      by (auto simp: process_outcome_def dispatch_and_persist_def Let_def split: if_splits)
  qed
qed

lemma process_outcome_all_succeeded:
  assumes "fst (process_outcome env event n) = Inr u"
  shows "\<exists>c rw. snd (process_outcome env event n) = [SgSend c, SequelizeSync, Create rw] \<and>
           sgMail_send env c \<and> sequelize_sync env \<and> EmailTracking_create env rw"
  using assms
  by (auto simp: process_outcome_def dispatch_and_persist_def Let_def
      split: sum.splits if_splits)

lemma initSecrets_returns: "fst (initSecrets env s) = Inr ()"
  by (simp add: initSecrets_def getSecret_def parseJSON_def prog_defs
      split: option.splits sum.splits prod.splits)

lemma initSecrets_no_secret:
  assumes "getSecretValue env (str ''rds-db-password'') = None"
  shows "snd (initSecrets env s) =
     s\<lparr>calls := calls s @ [GetSecretValue (str ''rds-db-password'')],
       console := console s @
         [LogError [Text (str ''Error retrieving secret '' @ str ''rds-db-password'' @ str '':''),
                    Thrown SecretsManagerError],
          LogError [Text (str ''Error initializing secrets:''),
                    MessageOf (Error (str ''Failed to retrieve secret: ''
                                      @ str ''rds-db-password''))]]\<rparr>"
  using assms
  by (simp add: initSecrets_def getSecret_def prog_defs)

lemma unconfigured_run:
  "process_outcome unconfigured_env example_event 20 =
     (Inl (Error (str ''Failed to send verification email'')),
      [SgSend (spec_emailContent (Str (str ''user@example.com''))
                 (Str (str ''noreply@example.org''))
                 (str ''http://undefined/verify?email=user%40example.com&token=''
                  @ example_token @ str ''13243546''))])"
  by (simp add: process_outcome_def example_extracted example_encoded example_token_20
      dispatch_and_persist_def Let_def domain_text_def env_value_def
      unconfigured_env_def example_env_def)
     (simp add: spec_link_def str_def)

section \<open>The claims\<close>

text \<open>
  C1. If the email provider rejects the request made during an invocation, the invocation
  fails with the generic error and the request to the provider is the only outbound call
  of that invocation: the datastore is neither synchronised nor written. This holds for
  both handlers.
\<close>

theorem email_failure_aborts_before_datastore:
  assumes "handler env event s = (r, s') \<or> handler_sm env event s = (r, s')"
    and "calls s' = calls s @ cs"
    and "SgSend c \<in> set cs"
    and "\<not> sgMail_send env c"
  shows "r = Inl (Error (str ''Verification process failed'')) \<and> cs = [SgSend c] \<and>
         SequelizeSync \<notin> set cs \<and> (\<forall>rw. Create rw \<notin> set cs)"
proof -
  from assms(1) obtain n where
    r: "r = (case fst (process_outcome env event n) of
               Inl e \<Rightarrow> Inl (Error (str ''Verification process failed''))
             | Inr u \<Rightarrow> Inr u)"
    and c: "calls s' = calls s @ snd (process_outcome env event n)"
    using handler_outcome [of env event s] handler_sm_outcome [of env event s]
    by (metis fst_conv snd_conv)
  from c assms(2) have cs: "cs = snd (process_outcome env event n)"
    by simp
  from process_outcome_send_rejected [of c env event n] assms(3,4) cs
  have "cs = [SgSend c]" and "\<exists>e. fst (process_outcome env event n) = Inl e"
    by simp_all
  with r show ?thesis
    by auto
qed

theorem email_failure_aborts_before_datastore_witness:
  "calls (snd (handler rejecting_env example_event initial)) =
     calls initial @
       [SgSend (spec_emailContent (Str (str ''user@example.com''))
                  (Str (str ''noreply@example.org'')) example_link)] \<and>
   \<not> sgMail_send rejecting_env
       (spec_emailContent (Str (str ''user@example.com''))
          (Str (str ''noreply@example.org'')) example_link) \<and>
   fst (handler rejecting_env example_event initial) =
     Inl (Error (str ''Verification process failed''))"
proof -
  have run: "calls (snd (handler rejecting_env example_event initial)) =
     calls initial @
       [SgSend (spec_emailContent (Str (str ''user@example.com''))
                  (Str (str ''noreply@example.org'')) example_link)]"
    by (simp add: handler_outcome rejecting_run initial_def)
  have rej: "\<not> sgMail_send rejecting_env
       (spec_emailContent (Str (str ''user@example.com''))
          (Str (str ''noreply@example.org'')) example_link)"
    by (simp add: rejecting_env_def)
  have pair: "handler rejecting_env example_event initial =
      (fst (handler rejecting_env example_event initial),
       snd (handler rejecting_env example_event initial)) \<or>
     handler_sm rejecting_env example_event initial =
      (fst (handler rejecting_env example_event initial),
       snd (handler rejecting_env example_event initial))"
    by simp
  from email_failure_aborts_before_datastore [OF pair run _ rej] run rej
  show ?thesis
    by simp
qed

text \<open>
  C2. An event whose \<open>Records\<close> is not a non-empty array (the field is missing, is not an
  array, or is empty), and an event whose first record carries a message text that
  \<open>JSON.parse\<close> rejects or whose parsed message yields no \<open>email\<close>, is rejected: the
  \<open>try\<close> block throws one of the errors for a malformed event, the caller gets the
  generic error, and no outbound call is made. The handler of \<open>index.js\<close> leaves the
  whole state as it was.
\<close>

theorem malformed_event_rejected:
  assumes "(\<nexists>record0 others.
              get_prop event (str ''Records'') = Inr (Arr (record0 # others))) \<or>
           (\<exists>record0 others Sns msg text.
              get_prop event (str ''Records'') = Inr (Arr (record0 # others)) \<and>
              get_prop record0 (str ''Sns'') = Inr Sns \<and>
              get_prop Sns (str ''Message'') = Inr msg \<and>
              ToString (Number_toString env) msg = Inr text \<and>
              (JSON_parse env text = None \<or>
               (\<exists>snsMessage. JSON_parse env text = Some snsMessage \<and>
                  (\<forall>v. get_prop snsMessage (str ''email'') = Inr v \<longrightarrow> v = Undefined))))"
  shows "handler env event s = (Inl (Error (str ''Verification process failed'')), s) \<and>
         fst (handler_sm env event s) = Inl (Error (str ''Verification process failed'')) \<and>
         calls (snd (handler_sm env event s)) = calls s \<and>
         fst (handler_try env event s) = fst (handler_sm_try env event s) \<and>
         fst (handler_try env event s) \<in>
           {Inl (Error (str ''Invalid event structure: No Records found'')),
            Inl TypeError, Inl SyntaxError,
            Inl (Error (str ''Invalid SNS message: Missing email field''))}"
proof -
  from assms obtain e where e: "extracted_email env event = Inl e"
    and kind: "e \<in> {Error (str ''Invalid event structure: No Records found''),
                    TypeError, SyntaxError,
                    Error (str ''Invalid SNS message: Missing email field'')}"
    using extracted_email_no_records [of event env] extracted_email_no_email [of event _ _ _ _ env]
    by (elim disjE exE conjE) fastforce+
  from handler_rejects [OF e, of s] kind show ?thesis
    by auto
qed

theorem malformed_event_rejected_witness:
  "(\<nexists>record0 others. get_prop (Obj []) (str ''Records'') = Inr (Arr (record0 # others))) \<and>
   handler example_env (Obj []) initial =
     (Inl (Error (str ''Verification process failed'')), initial) \<and>
   JSON_parse example_env (str ''not json'') = None \<and>
   handler example_env (event_with_message (str ''not json'')) initial =
     (Inl (Error (str ''Verification process failed'')), initial) \<and>
   calls (snd (handler_sm example_env (event_with_message (str ''not json'')) initial)) = []"
proof -
  have none: "\<nexists>record0 others.
      get_prop (Obj []) (str ''Records'') = Inr (Arr (record0 # others))"
    by simp
  have parse: "JSON_parse example_env (str ''not json'') = None"
    by (simp add: example_env_def not_json_text)
  have "\<exists>record0 others Sns msg text.
      get_prop (event_with_message (str ''not json'')) (str ''Records'') =
        Inr (Arr (record0 # others)) \<and>
      get_prop record0 (str ''Sns'') = Inr Sns \<and>
      get_prop Sns (str ''Message'') = Inr msg \<and>
      ToString (Number_toString example_env) msg = Inr text \<and>
      (JSON_parse example_env text = None \<or>
       (\<exists>snsMessage. JSON_parse example_env text = Some snsMessage \<and>
          (\<forall>v. get_prop snsMessage (str ''email'') = Inr v \<longrightarrow> v = Undefined)))"
    using parse event_with_message_reads [of "str ''not json''"]
    by (intro exI [of _ "Str (str ''not json'')"] exI [of _ "str ''not json''"] exI conjI)
       (simp_all (no_asm_simp))
  then have bad: "(\<nexists>record0 others.
        get_prop (event_with_message (str ''not json'')) (str ''Records'') =
          Inr (Arr (record0 # others))) \<or>
      (\<exists>record0 others Sns msg text.
        get_prop (event_with_message (str ''not json'')) (str ''Records'') =
          Inr (Arr (record0 # others)) \<and>
        get_prop record0 (str ''Sns'') = Inr Sns \<and>
        get_prop Sns (str ''Message'') = Inr msg \<and>
        ToString (Number_toString example_env) msg = Inr text \<and>
        (JSON_parse example_env text = None \<or>
         (\<exists>snsMessage. JSON_parse example_env text = Some snsMessage \<and>
            (\<forall>v. get_prop snsMessage (str ''email'') = Inr v \<longrightarrow> v = Undefined))))"
    by (rule disjI2)
  from malformed_event_rejected [of "Obj []" example_env initial, OF disjI1, OF none]
    malformed_event_rejected [of "event_with_message (str ''not json'')" example_env initial,
      OF bad]
    none parse
  show ?thesis
    by (simp add: initial_def)
qed

text \<open>
  C3. For an event that passes the handler's checks (a non-empty \<open>Records\<close> array whose
  first record carries a message that parses to a value with a truthy \<open>email\<close>) and
  whose email can be URL-encoded, with \<open>DOMAIN_NAME\<close> configured: the token is the
  lower-case hex encoding of 16 random bytes (32 characters) in \<open>index.js\<close> and of 20
  random bytes (40 characters) in the other variant, and the link, a function of domain,
  email and token only, is \<open>http://<domain>/verify?email=<urlencoded-email>&token=<token>\<close>;
  the first outbound call of the handler is an email to that address with the link in its
  body.
\<close>

theorem token_and_link_format:
  assumes "get_prop event (str ''Records'') = Inr (Arr (record0 # others))"
    and "get_prop record0 (str ''Sns'') = Inr Sns"
    and "get_prop Sns (str ''Message'') = Inr msg"
    and "ToString (Number_toString env) msg = Inr text"
    and "JSON_parse env text = Some snsMessage"
    and "get_prop snsMessage (str ''email'') = Inr email"
    and "truthy email"
    and "encodeURIComponent (Number_toString env) email = Inr encoded"
    and "DOMAIN_NAME env = Some domain"
  shows "isHexString (toHex (randomBytes env 16)) \<and> length (toHex (randomBytes env 16)) = 32 \<and>
         isHexString (toHex (randomBytes env 20)) \<and> length (toHex (randomBytes env 20)) = 40 \<and>
         fst (generateVerificationLink env email s) =
           Inr (toHex (randomBytes env 16),
                str ''http://'' @ domain @ str ''/verify?email='' @ encoded
                  @ str ''&token='' @ toHex (randomBytes env 16),
                Date_now env + 120000) \<and>
         fst (generateVerificationLink_sm env email s) =
           Inr (toHex (randomBytes env 20),
                str ''http://'' @ domain @ str ''/verify?email='' @ encoded
                  @ str ''&token='' @ toHex (randomBytes env 20),
                Date_now env + 120000) \<and>
         (\<exists>c rest before after.
            calls (snd (handler env event s)) = calls s @ SgSend c # rest \<and>
            mail_to c = email \<and>
            html c = before @ (str ''http://'' @ domain @ str ''/verify?email='' @ encoded
                               @ str ''&token='' @ toHex (randomBytes env 16)) @ after) \<and>
         (\<exists>c rest before after.
            calls (snd (handler_sm env event s)) = calls s @ SgSend c # rest \<and>
            mail_to c = email \<and>
            html c = before @ (str ''http://'' @ domain @ str ''/verify?email='' @ encoded
                               @ str ''&token='' @ toHex (randomBytes env 20)) @ after)"
proof -
  have hex: "isHexString (toHex (randomBytes env 16)) \<and> length (toHex (randomBytes env 16)) = 32 \<and>
      isHexString (toHex (randomBytes env 20)) \<and> length (toHex (randomBytes env 20)) = 40"
    by (simp add: isHexString_toHex length_toHex length_randomBytes)
  obtain shown where shown: "ToString (Number_toString env) email = Inr shown"
    using encode_ToString [OF assms(8)] by blast
  have dom: "domain_text env = domain"
    using assms(9) by (rule domain_text_Some)
  have link: "spec_link domain encoded tok =
      str ''http://'' @ domain @ str ''/verify?email='' @ encoded @ str ''&token='' @ tok" for tok
    by (simp add: spec_link_def)
  have gen: "fst (generateVerificationLink env email s) =
      Inr (toHex (randomBytes env 16), spec_link domain encoded (toHex (randomBytes env 16)),
           Date_now env + 120000)"
    "fst (generateVerificationLink_sm env email s) =
      Inr (toHex (randomBytes env 20), spec_link domain encoded (toHex (randomBytes env 20)),
           Date_now env + 120000)"
    by (simp_all add: generateVerificationLink_run [OF assms(8)]
        generateVerificationLink_sm_run [OF assms(8) shown] dom spec_expiryTime_def)
  have ext: "extracted_email env event = Inr email"
    using extracted_email_chain [OF assms(1-6)] assms(7) by simp
  have sent: "\<exists>c rest before after.
      snd (process_outcome env event n) = SgSend c # rest \<and> mail_to c = email \<and>
      html c = before @ spec_link domain encoded (toHex (randomBytes env n)) @ after" for n
  proof -
    from process_outcome_valid [OF ext assms(8), of n] dom obtain rest where
      "snd (process_outcome env event n) =
         SgSend (spec_emailContent email (env_value (SENDGRID_FROM_EMAIL env))
                   (spec_link domain encoded (toHex (randomBytes env n)))) # rest"
      by auto
    moreover have "mail_to (spec_emailContent email sender l) = email" for sender l
      by (simp add: spec_emailContent_def)
    moreover have "\<exists>before after. html (spec_emailContent email sender l) = before @ l @ after"
      for sender l
      unfolding spec_emailContent_def spec_html_def by auto
    ultimately show ?thesis
      by blast
  qed
  from sent [of 16] sent [of 20] have
    "\<exists>c rest before after.
       calls (snd (handler env event s)) = calls s @ SgSend c # rest \<and> mail_to c = email \<and>
       html c = before @ spec_link domain encoded (toHex (randomBytes env 16)) @ after"
    "\<exists>c rest before after.
       calls (snd (handler_sm env event s)) = calls s @ SgSend c # rest \<and> mail_to c = email \<and>
       html c = before @ spec_link domain encoded (toHex (randomBytes env 20)) @ after"
    unfolding handler_outcome handler_sm_outcome by simp_all
  with hex gen show ?thesis
    unfolding link by blast
qed

theorem token_and_link_format_witness:
  "DOMAIN_NAME example_env = Some (str ''example.org'') \<and>
   encodeURIComponent (Number_toString example_env) (Str (str ''user@example.com'')) =
     Inr (str ''user%40example.com'') \<and>
   fst (generateVerificationLink example_env (Str (str ''user@example.com'')) initial) =
     Inr (str ''031425364758697a8b9cadbecfe0f102'',
          str ''http://example.org/verify?email=user%40example.com&token=031425364758697a8b9cadbecfe0f102'',
          1700000120000) \<and>
   length (str ''031425364758697a8b9cadbecfe0f102'') = 32"
proof -
  have parse: "JSON_parse example_env = example_parse"
    and dom: "DOMAIN_NAME example_env = Some (str ''example.org'')"
    and ent: "entropy example_env = (\<lambda>i. of_nat (17 * i + 3))"
    and now: "Date_now example_env = 1700000000000"
    by (simp_all add: example_env_def)
  have enc: "encodeURIComponent (Number_toString example_env) (Str (str ''user@example.com'')) =
      Inr (str ''user%40example.com'')"
    by (rule example_encoded)
  have tok: "toHex (randomBytes example_env 16) = str ''031425364758697a8b9cadbecfe0f102''"
    using example_token_16 [OF ent] by (simp add: example_token_def)
  have cat: "str ''http://'' @ str ''example.org'' @ str ''/verify?email=''
      @ str ''user%40example.com'' @ str ''&token='' @ str ''031425364758697a8b9cadbecfe0f102'' =
      str ''http://example.org/verify?email=user%40example.com&token=031425364758697a8b9cadbecfe0f102''"
    by (simp add: str_def)
  from token_and_link_format
         [OF example_chain(1) [OF parse] example_chain(2) [OF parse] example_chain(3) [OF parse]
             example_chain(4) [OF parse] example_chain(5) [OF parse] example_chain(6) [OF parse]
             example_chain(7) [OF parse] enc dom, of initial]
  have "fst (generateVerificationLink example_env (Str (str ''user@example.com'')) initial) =
      Inr (str ''031425364758697a8b9cadbecfe0f102'',
           str ''http://'' @ str ''example.org'' @ str ''/verify?email=''
             @ str ''user%40example.com'' @ str ''&token=''
             @ str ''031425364758697a8b9cadbecfe0f102'',
           1700000120000)"
    and "length (toHex (randomBytes example_env 16)) = 32"
    unfolding tok now by simp_all
  with dom enc show ?thesis
    unfolding tok cat by simp
qed

text \<open>
  C4. When an invocation succeeds, the row it wrote has an expiry time of exactly the clock
  reading plus 2 minutes (120000 milliseconds), and so has every result of
  \<open>generateVerificationLink\<close>, in both variants.
\<close>

theorem expiry_two_minutes_after_creation:
  assumes "handler env event s = (Inr (), s') \<or> handler_sm env event s = (Inr (), s')"
  shows "(\<exists>c rw. calls s' = calls s @ [SgSend c, SequelizeSync, Create rw] \<and>
            row_expiryTime rw = Date_now env + 2 * 60 * 1000) \<and>
         (\<forall>email s0 t l x s1.
            generateVerificationLink env email s0 = (Inr (t, l, x), s1) \<or>
            generateVerificationLink_sm env email s0 = (Inr (t, l, x), s1) \<longrightarrow>
            x = Date_now env + 2 * 60 * 1000)"
proof -
  from assms obtain n where
    r: "(case fst (process_outcome env event n) of
           Inl e \<Rightarrow> Inl (Error (str ''Verification process failed''))
         | Inr u \<Rightarrow> Inr u) = Inr ()"
    and c: "calls s' = calls s @ snd (process_outcome env event n)"
    using handler_outcome [of env event s] handler_sm_outcome [of env event s]
    by (metis fst_conv snd_conv)
  from r have "fst (process_outcome env event n) = Inr ()"
    by (simp split: sum.splits)
  from process_outcome_success [OF this] c
  have "\<exists>c rw. calls s' = calls s @ [SgSend c, SequelizeSync, Create rw] \<and>
      row_expiryTime rw = Date_now env + 2 * 60 * 1000"
    by (auto simp: spec_expiryTime_def)
  moreover have "x = Date_now env + 2 * 60 * 1000"
    if "generateVerificationLink env email s0 = (Inr (t, l, x), s1) \<or>
        generateVerificationLink_sm env email s0 = (Inr (t, l, x), s1)"
    for email s0 t l x s1
    using generated_expiry [OF that] by (simp add: spec_expiryTime_def)
  ultimately show ?thesis
    by blast
qed

theorem expiry_two_minutes_after_creation_witness:
  "fst (handler example_env example_event initial) = Inr () \<and>
   Date_now example_env = 1700000000000 \<and>
   calls (snd (handler example_env example_event initial)) =
     [SgSend (spec_emailContent (Str (str ''user@example.com''))
                (Str (str ''noreply@example.org'')) example_link),
      SequelizeSync,
      Create \<lparr>row_email = Str (str ''user@example.com''), row_token = example_token,
              row_expiryTime = 1700000120000\<rparr>]"
proof -
  have ok: "fst (handler example_env example_event initial) = Inr ()"
    by (simp add: handler_outcome example_run)
  have calls: "calls (snd (handler example_env example_event initial)) =
     [SgSend (spec_emailContent (Str (str ''user@example.com''))
                (Str (str ''noreply@example.org'')) example_link),
      SequelizeSync,
      Create \<lparr>row_email = Str (str ''user@example.com''), row_token = example_token,
              row_expiryTime = 1700000120000\<rparr>]"
    by (simp add: handler_outcome example_run initial_def)
  have now: "Date_now example_env = 1700000000000"
    by (simp add: example_env_def)
  have run: "handler example_env example_event initial =
      (Inr (), snd (handler example_env example_event initial)) \<or>
     handler_sm example_env example_event initial =
      (Inr (), snd (handler example_env example_event initial))"
    using ok by (metis prod.collapse)
  from expiry_two_minutes_after_creation [OF run] calls
  have "\<exists>rw. Create \<lparr>row_email = Str (str ''user@example.com''), row_token = example_token,
              row_expiryTime = 1700000120000\<rparr> = Create rw \<and>
          row_expiryTime rw = Date_now example_env + 2 * 60 * 1000"
    by (auto simp: initial_def)
  with ok now calls show ?thesis
    by simp
qed

text \<open>
  C5. A row that an invocation hands to the datastore has an email that is neither
  \<open>null\<close> nor \<open>undefined\<close>: it is the value read from the parsed message of the first
  record of this event. Its token is the token generated in this invocation (16 random
  bytes in \<open>index.js\<close>, 20 in the other variant) and its expiry time is the one computed
  in this invocation. The write is the last of exactly three outbound calls: the
  invocation issues no second write, no update and no delete.
\<close>

theorem persisted_row_is_what_was_generated:
  assumes "(handler env event s = (r, s') \<and> n = 16) \<or>
           (handler_sm env event s = (r, s') \<and> n = 20)"
    and "calls s' = calls s @ cs"
    and "Create rw \<in> set cs"
  shows "row_email rw \<noteq> Null \<and> row_email rw \<noteq> Undefined \<and>
         (\<exists>record0 others Sns msg text snsMessage.
            get_prop event (str ''Records'') = Inr (Arr (record0 # others)) \<and>
            get_prop record0 (str ''Sns'') = Inr Sns \<and>
            get_prop Sns (str ''Message'') = Inr msg \<and>
            ToString (Number_toString env) msg = Inr text \<and>
            JSON_parse env text = Some snsMessage \<and>
            get_prop snsMessage (str ''email'') = Inr (row_email rw)) \<and>
         row_token rw = toHex (randomBytes env n) \<and>
         length (row_token rw) = 2 * n \<and>
         row_expiryTime rw = Date_now env + 2 * 60 * 1000 \<and>
         (\<exists>c. cs = [SgSend c, SequelizeSync, Create rw])"
proof -
  from assms(1) have "calls s' = calls s @ snd (process_outcome env event n)"
    using handler_outcome(2) [of env event s] handler_sm_outcome(2) [of env event s]
    by (metis snd_conv)
  with assms(2) have cs: "cs = snd (process_outcome env event n)"
    by simp
  note facts = process_outcome_create [OF assms(3) [unfolded cs]]
  from extracted_email_Inr [OF facts(1)] obtain record0 others Sns msg message_text snsMessage where
    chain: "get_prop event (str ''Records'') = Inr (Arr (record0 # others))"
      "get_prop record0 (str ''Sns'') = Inr Sns"
      "get_prop Sns (str ''Message'') = Inr msg"
      "ToString (Number_toString env) msg = Inr message_text"
      "JSON_parse env message_text = Some snsMessage"
      "get_prop snsMessage (str ''email'') = Inr (row_email rw)"
    and tr: "truthy (row_email rw)"
    by blast
  from tr have "row_email rw \<noteq> Null \<and> row_email rw \<noteq> Undefined"
    by auto
  moreover from facts(2) have "length (row_token rw) = 2 * n"
    by (simp add: length_toHex length_randomBytes)
  moreover from facts(3) have "row_expiryTime rw = Date_now env + 2 * 60 * 1000"
    by (simp add: spec_expiryTime_def)
  moreover from facts(4) cs have "\<exists>c. cs = [SgSend c, SequelizeSync, Create rw]"
    by simp
  ultimately show ?thesis
    using chain facts(2) by blast
qed

theorem persisted_row_is_what_was_generated_witness:
  "calls (snd (handler example_env example_event initial)) =
     calls initial @
     [SgSend (spec_emailContent (Str (str ''user@example.com''))
                (Str (str ''noreply@example.org'')) example_link),
      SequelizeSync,
      Create \<lparr>row_email = Str (str ''user@example.com''), row_token = example_token,
              row_expiryTime = 1700000120000\<rparr>] \<and>
   example_token = toHex (randomBytes example_env 16) \<and>
   length example_token = 32"
proof -
  have calls: "calls (snd (handler example_env example_event initial)) =
     calls initial @
     [SgSend (spec_emailContent (Str (str ''user@example.com''))
                (Str (str ''noreply@example.org'')) example_link),
      SequelizeSync,
      Create \<lparr>row_email = Str (str ''user@example.com''), row_token = example_token,
              row_expiryTime = 1700000120000\<rparr>]"
    by (simp add: handler_outcome example_run initial_def)
  have run: "(handler example_env example_event initial =
       (fst (handler example_env example_event initial),
        snd (handler example_env example_event initial)) \<and> (16::nat) = 16) \<or>
     (handler_sm example_env example_event initial =
       (fst (handler example_env example_event initial),
        snd (handler example_env example_event initial)) \<and> (16::nat) = 20)"
    by simp
  from persisted_row_is_what_was_generated [OF run calls, of
      "\<lparr>row_email = Str (str ''user@example.com''), row_token = example_token,
        row_expiryTime = 1700000120000\<rparr>"]
  have "example_token = toHex (randomBytes example_env 16) \<and> length example_token = 32"
    by simp
  with calls show ?thesis
    by simp
qed

text \<open>
  C6, as stated, fails. The instance below has no \<open>DOMAIN_NAME\<close> and cannot reach its
  secrets. The startup function returns normally after the one failed request for a
  secret; the handler then runs, builds a link to the host \<open>undefined\<close>, calls the email
  provider and only there fails, with the generic error.
\<close>

theorem startup_failure_not_fatal_counterexample:
  "DOMAIN_NAME unconfigured_env = None \<and>
   getSecretValue unconfigured_env (str ''rds-db-password'') = None \<and>
   fst (initSecrets unconfigured_env initial) = Inr () \<and>
   calls (snd (initSecrets unconfigured_env initial)) =
     [GetSecretValue (str ''rds-db-password'')] \<and>
   fst (handler_sm unconfigured_env example_event (snd (initSecrets unconfigured_env initial))) =
     Inl (Error (str ''Verification process failed'')) \<and>
   calls (snd (handler_sm unconfigured_env example_event
                 (snd (initSecrets unconfigured_env initial)))) =
     [GetSecretValue (str ''rds-db-password''),
      SgSend (spec_emailContent (Str (str ''user@example.com''))
                (Str (str ''noreply@example.org''))
                (str ''http://undefined/verify?email=user%40example.com&token=''
                 @ example_token @ str ''13243546''))]"
proof -
  have none: "getSecretValue unconfigured_env (str ''rds-db-password'') = None"
    and dom: "DOMAIN_NAME unconfigured_env = None"
    by (simp_all add: unconfigured_env_def example_env_def)
  from none dom show ?thesis
    by (simp add: initSecrets_returns initSecrets_no_secret [OF none] handler_sm_outcome
        unconfigured_run initial_def)
qed

text \<open>
  C6, amended. Neither the configuration nor the secrets are checked at startup. The
  startup function of the variant that reads its secrets never throws: when the request
  for the database password fails, it logs the failure twice (for the secret, and for the
  initialisation) and returns, having made no other call and set no variable. An unset
  \<open>DOMAIN_NAME\<close> is not detected either: both variants build the link with the text
  \<open>undefined\<close> as its host.
\<close>

theorem startup_does_not_validate:
  "fst (initSecrets env s) = Inr () \<and>
   (getSecretValue env (str ''rds-db-password'') = None \<longrightarrow>
      snd (initSecrets env s) =
        s\<lparr>calls := calls s @ [GetSecretValue (str ''rds-db-password'')],
          console := console s @
            [LogError [Text (str ''Error retrieving secret rds-db-password:''),
                       Thrown SecretsManagerError],
             LogError [Text (str ''Error initializing secrets:''),
                       MessageOf (Error (str ''Failed to retrieve secret: rds-db-password''))]]\<rparr>) \<and>
   (DOMAIN_NAME env = None \<and> encodeURIComponent (Number_toString env) email = Inr encoded \<longrightarrow>
      fst (generateVerificationLink env email s) =
        Inr (toHex (randomBytes env 16),
             str ''http://undefined/verify?email='' @ encoded @ str ''&token=''
               @ toHex (randomBytes env 16),
             Date_now env + 2 * 60 * 1000) \<and>
      fst (generateVerificationLink_sm env email s) =
        Inr (toHex (randomBytes env 20),
             str ''http://undefined/verify?email='' @ encoded @ str ''&token=''
               @ toHex (randomBytes env 20),
             Date_now env + 2 * 60 * 1000))"
proof -
  have cat: "str ''Error retrieving secret '' @ str ''rds-db-password'' @ str '':'' =
      str ''Error retrieving secret rds-db-password:''"
    "str ''Failed to retrieve secret: '' @ str ''rds-db-password'' =
      str ''Failed to retrieve secret: rds-db-password''"
    by (simp_all add: str_def)
  have secrets: "snd (initSecrets env s) =
        s\<lparr>calls := calls s @ [GetSecretValue (str ''rds-db-password'')],
          console := console s @
            [LogError [Text (str ''Error retrieving secret rds-db-password:''),
                       Thrown SecretsManagerError],
             LogError [Text (str ''Error initializing secrets:''),
                       MessageOf (Error (str ''Failed to retrieve secret: rds-db-password''))]]\<rparr>"
    if "getSecretValue env (str ''rds-db-password'') = None"
    using initSecrets_no_secret [OF that, of s] unfolding cat .
  have link: "fst (generateVerificationLink env email s) =
        Inr (toHex (randomBytes env 16),
             str ''http://undefined/verify?email='' @ encoded @ str ''&token=''
               @ toHex (randomBytes env 16),
             Date_now env + 2 * 60 * 1000) \<and>
      fst (generateVerificationLink_sm env email s) =
        Inr (toHex (randomBytes env 20),
             str ''http://undefined/verify?email='' @ encoded @ str ''&token=''
               @ toHex (randomBytes env 20),
             Date_now env + 2 * 60 * 1000)"
    if dom: "DOMAIN_NAME env = None"
      and enc: "encodeURIComponent (Number_toString env) email = Inr encoded"
  proof -
    obtain shown where shown: "ToString (Number_toString env) email = Inr shown"
      using encode_ToString [OF enc] by blast
    have host: "str ''http://'' @ str ''undefined'' @ str ''/verify?email='' @ rest =
        str ''http://undefined/verify?email='' @ rest" for rest
      by (simp add: str_def)
    show ?thesis
      by (simp add: generateVerificationLink_run [OF enc]
          generateVerificationLink_sm_run [OF enc shown]
          domain_text_def dom spec_link_def spec_expiryTime_def host)
  qed
  from initSecrets_returns [of env s] secrets link show ?thesis
    by blast
qed

theorem startup_does_not_validate_witness:
  "getSecretValue unconfigured_env (str ''rds-db-password'') = None \<and>
   DOMAIN_NAME unconfigured_env = None \<and>
   encodeURIComponent (Number_toString unconfigured_env) (Str (str ''user@example.com'')) =
     Inr (str ''user%40example.com'') \<and>
   fst (initSecrets unconfigured_env initial) = Inr () \<and>
   calls (snd (initSecrets unconfigured_env initial)) =
     [GetSecretValue (str ''rds-db-password'')] \<and>
   fst (generateVerificationLink unconfigured_env (Str (str ''user@example.com'')) initial) =
     Inr (example_token,
          str ''http://undefined/verify?email='' @ str ''user%40example.com'' @ str ''&token=''
            @ example_token,
          1700000120000)"
proof -
  have none: "getSecretValue unconfigured_env (str ''rds-db-password'') = None"
    and dom: "DOMAIN_NAME unconfigured_env = None"
    and ent: "entropy unconfigured_env = (\<lambda>i. of_nat (17 * i + 3))"
    and now: "Date_now unconfigured_env = 1700000000000"
    by (simp_all add: unconfigured_env_def example_env_def)
  have enc: "encodeURIComponent (Number_toString unconfigured_env)
      (Str (str ''user@example.com'')) = Inr (str ''user%40example.com'')"
    by (rule example_encoded)
  from startup_does_not_validate
         [of unconfigured_env initial "Str (str ''user@example.com'')" "str ''user%40example.com''"]
    none dom enc
  show ?thesis
    unfolding example_token_16 [OF ent] now
    by (simp add: initial_def)
qed

text \<open>
  C7, as stated, fails on \<open>index.js\<close>: its \<open>catch\<close> block writes nothing to the
  console. Here the event has no \<open>Records\<close>; the invocation fails and the console stays
  empty.
\<close>

theorem failure_not_logged_counterexample:
  "fst (handler example_env (Obj []) initial) = Inl (Error (str ''Verification process failed'')) \<and>
   console (snd (handler example_env (Obj []) initial)) = []"
  by (simp add: handler_def handler_try_def prog_defs initial_def)

text \<open>
  C7, amended. In the variant that reads its secrets, an error thrown in the \<open>try\<close> block
  is logged (its message after \<open>Error handling verification process:\<close>, then its stack)
  and the generic error is raised in its place; the error is one of the seven that the
  stages of the process throw. In \<open>index.js\<close> the generic error is raised and the state,
  console included, stays as the \<open>try\<close> block left it. Either handler ends with success
  or with the generic error, and with success only after the email was sent, the datastore
  was synchronised and the row was written, all three without error.
\<close>

theorem failures_reraised_generic:
  "(\<forall>e s1.
      handler_sm_try env event
        (s\<lparr>console := console s @ [Log [Text (str ''Event received:''), Json event]]\<rparr>) =
        (Inl e, s1) \<longrightarrow>
      handler_sm env event s =
        (Inl (Error (str ''Verification process failed'')),
         s1\<lparr>console := console s1 @
              [LogError [Text (str ''Error handling verification process:''), MessageOf e],
               LogError [StackOf e]]\<rparr>) \<and>
      e \<in> {Error (str ''Invalid event structure: No Records found''), TypeError,
           SyntaxError, Error (str ''Invalid SNS message: Missing email field''),
           URIError, Error (str ''Failed to send verification email''), SequelizeError}) \<and>
   (\<forall>e s1.
      handler_try env event s = (Inl e, s1) \<longrightarrow>
      handler env event s = (Inl (Error (str ''Verification process failed'')), s1)) \<and>
   (fst (handler env event s) = Inr () \<or>
    fst (handler env event s) = Inl (Error (str ''Verification process failed''))) \<and>
   (fst (handler_sm env event s) = Inr () \<or>
    fst (handler_sm env event s) = Inl (Error (str ''Verification process failed''))) \<and>
   (fst (handler env event s) = Inr () \<longrightarrow>
      (\<exists>c rw. calls (snd (handler env event s)) = calls s @ [SgSend c, SequelizeSync, Create rw] \<and>
         sgMail_send env c \<and> sequelize_sync env \<and> EmailTracking_create env rw)) \<and>
   (fst (handler_sm env event s) = Inr () \<longrightarrow>
      (\<exists>c rw. calls (snd (handler_sm env event s)) =
                 calls s @ [SgSend c, SequelizeSync, Create rw] \<and>
         sgMail_send env c \<and> sequelize_sync env \<and> EmailTracking_create env rw))"
proof -
  have sm: "handler_sm env event s =
        (Inl (Error (str ''Verification process failed'')),
         s1\<lparr>console := console s1 @
              [LogError [Text (str ''Error handling verification process:''), MessageOf e],
               LogError [StackOf e]]\<rparr>) \<and>
      e \<in> {Error (str ''Invalid event structure: No Records found''), TypeError,
           SyntaxError, Error (str ''Invalid SNS message: Missing email field''),
           URIError, Error (str ''Failed to send verification email''), SequelizeError}"
    if run: "handler_sm_try env event
        (s\<lparr>console := console s @ [Log [Text (str ''Event received:''), Json event]]\<rparr>) =
        (Inl e, s1)"
    for e s1
  proof -
    from run have "fst (process_outcome env event 20) = Inl e"
      using handler_sm_try_outcome
        [of env event "s\<lparr>console := console s @ [Log [Text (str ''Event received:''), Json event]]\<rparr>"]
      by simp
    from process_outcome_error [OF this] run show ?thesis
      by (simp add: handler_sm_def prog_defs)
  qed
  have ix: "handler env event s = (Inl (Error (str ''Verification process failed'')), s1)"
    if "handler_try env event s = (Inl e, s1)" for e s1
    using that by (simp add: handler_def tryCatch_def throw_def)
  have ends: "fst (handler env event s) = Inr () \<or>
      fst (handler env event s) = Inl (Error (str ''Verification process failed''))"
    "fst (handler_sm env event s) = Inr () \<or>
      fst (handler_sm env event s) = Inl (Error (str ''Verification process failed''))"
    by (simp_all add: handler_outcome handler_sm_outcome split: sum.splits)
  have ok: "\<exists>c rw. calls (snd (handler env event s)) =
                 calls s @ [SgSend c, SequelizeSync, Create rw] \<and>
         sgMail_send env c \<and> sequelize_sync env \<and> EmailTracking_create env rw"
    if "fst (handler env event s) = Inr ()"
  proof -
    from that have "fst (process_outcome env event 16) = Inr ()"
      by (simp add: handler_outcome split: sum.splits)
    from process_outcome_all_succeeded [OF this] show ?thesis
      by (auto simp: handler_outcome)
  qed
  have ok_sm: "\<exists>c rw. calls (snd (handler_sm env event s)) =
                 calls s @ [SgSend c, SequelizeSync, Create rw] \<and>
         sgMail_send env c \<and> sequelize_sync env \<and> EmailTracking_create env rw"
    if "fst (handler_sm env event s) = Inr ()"
  proof -
    from that have "fst (process_outcome env event 20) = Inr ()"
      by (simp add: handler_sm_outcome split: sum.splits)
    from process_outcome_all_succeeded [OF this] show ?thesis
      by (auto simp: handler_sm_outcome)
  qed
  from sm ix ends ok ok_sm show ?thesis
    by blast
qed

theorem failures_reraised_generic_witness:
  "handler_sm_try example_env (Obj [])
     (initial\<lparr>console := console initial @ [Log [Text (str ''Event received:''), Json (Obj [])]]\<rparr>) =
     (Inl (Error (str ''Invalid event structure: No Records found'')),
      initial\<lparr>console :=
        [Log [Text (str ''Event received:''), Json (Obj [])],
         LogError [Text (str ''Invalid event structure: No Records found'')]]\<rparr>) \<and>
   handler_sm example_env (Obj []) initial =
     (Inl (Error (str ''Verification process failed'')),
      initial\<lparr>console :=
        [Log [Text (str ''Event received:''), Json (Obj [])],
         LogError [Text (str ''Invalid event structure: No Records found'')],
         LogError [Text (str ''Error handling verification process:''),
                   MessageOf (Error (str ''Invalid event structure: No Records found''))],
         LogError [StackOf (Error (str ''Invalid event structure: No Records found''))]]\<rparr>) \<and>
   handler_try example_env (Obj []) initial =
     (Inl (Error (str ''Invalid event structure: No Records found'')), initial) \<and>
   handler example_env (Obj []) initial =
     (Inl (Error (str ''Verification process failed'')), initial) \<and>
   fst (handler example_env example_event initial) = Inr () \<and>
   sgMail_send example_env
     (spec_emailContent (Str (str ''user@example.com'')) (Str (str ''noreply@example.org''))
        example_link)"
proof -
  have sm_try: "handler_sm_try example_env (Obj [])
     (initial\<lparr>console := console initial @ [Log [Text (str ''Event received:''), Json (Obj [])]]\<rparr>) =
     (Inl (Error (str ''Invalid event structure: No Records found'')),
      initial\<lparr>console :=
        [Log [Text (str ''Event received:''), Json (Obj [])],
         LogError [Text (str ''Invalid event structure: No Records found'')]]\<rparr>)"
    by (simp add: handler_sm_try_def prog_defs initial_def)
  have ix_try: "handler_try example_env (Obj []) initial =
     (Inl (Error (str ''Invalid event structure: No Records found'')), initial)"
    by (simp add: handler_try_def prog_defs)
  have ok: "fst (handler example_env example_event initial) = Inr ()"
    by (simp add: handler_outcome example_run)
  have calls: "calls (snd (handler example_env example_event initial)) =
     [SgSend (spec_emailContent (Str (str ''user@example.com''))
                (Str (str ''noreply@example.org'')) example_link),
      SequelizeSync,
      Create \<lparr>row_email = Str (str ''user@example.com''), row_token = example_token,
              row_expiryTime = 1700000120000\<rparr>]"
    by (simp add: handler_outcome example_run initial_def)
  note thm1 = failures_reraised_generic [of example_env "Obj []" initial]
  note thm2 = failures_reraised_generic [of example_env example_event initial]
  from thm1 sm_try have sm: "handler_sm example_env (Obj []) initial =
     (Inl (Error (str ''Verification process failed'')),
      initial\<lparr>console :=
        [Log [Text (str ''Event received:''), Json (Obj [])],
         LogError [Text (str ''Invalid event structure: No Records found'')],
         LogError [Text (str ''Error handling verification process:''),
                   MessageOf (Error (str ''Invalid event structure: No Records found''))],
         LogError [StackOf (Error (str ''Invalid event structure: No Records found''))]]\<rparr>)"
    by (simp add: initial_def)
  from thm1 ix_try have ix: "handler example_env (Obj []) initial =
     (Inl (Error (str ''Verification process failed'')), initial)"
    by blast
  from thm2 ok calls have "sgMail_send example_env
     (spec_emailContent (Str (str ''user@example.com'')) (Str (str ''noreply@example.org''))
        example_link)"
    by (auto simp: initial_def)
  with sm_try sm ix_try ix ok show ?thesis
    by simp
qed

text \<open>
  C8. Two events whose \<open>Records\<close> arrays start with the same record behave alike, whatever
  follows the first record: the handler of \<open>index.js\<close> returns the same result and the
  same state (outbound calls and console), and the other handler returns the same result
  and makes the same outbound calls (its console differs, since it prints the whole
  event). The random bytes and the clock are those of the environment, the same in both
  runs.
\<close>

theorem only_first_record_consulted:
  assumes "get_prop event1 (str ''Records'') = Inr (Arr (record0 # others1))"
    and "get_prop event2 (str ''Records'') = Inr (Arr (record0 # others2))"
  shows "handler env event1 s = handler env event2 s \<and>
         fst (handler_sm env event1 s) = fst (handler_sm env event2 s) \<and>
         calls (snd (handler_sm env event1 s)) = calls (snd (handler_sm env event2 s))"
proof -
  have "handler_try env event1 = handler_try env event2"
    by (simp add: handler_try_def andThen_def lift_def assms)
  then have "handler env event1 s = handler env event2 s"
    by (simp add: handler_def)
  moreover have "extracted_email env event1 = extracted_email env event2"
    by (simp add: extracted_email_def assms)
  then have "process_outcome env event1 20 = process_outcome env event2 20"
    by (simp add: process_outcome_def)
  then have "fst (handler_sm env event1 s) = fst (handler_sm env event2 s) \<and>
      calls (snd (handler_sm env event1 s)) = calls (snd (handler_sm env event2 s))"
    by (simp add: handler_sm_outcome)
  ultimately show ?thesis
    by simp
qed

theorem only_first_record_consulted_witness:
  \<open>get_prop example_event (str ''Records'') =
     Inr (Arr [Obj [(str ''Sns'',
                     Obj [(str ''Message'', Str (str ''{"email":"user@example.com"}''))])]]) \<and>
   get_prop (Obj [(str ''Records'',
                   Arr [Obj [(str ''Sns'',
                              Obj [(str ''Message'',
                                    Str (str ''{"email":"user@example.com"}''))])],
                        Null, Str (str ''not a record'')])])
     (str ''Records'') =
     Inr (Arr [Obj [(str ''Sns'',
                     Obj [(str ''Message'', Str (str ''{"email":"user@example.com"}''))])],
               Null, Str (str ''not a record'')]) \<and>
   handler example_env
     (Obj [(str ''Records'',
            Arr [Obj [(str ''Sns'',
                       Obj [(str ''Message'', Str (str ''{"email":"user@example.com"}''))])],
                 Null, Str (str ''not a record'')])])
     initial =
   handler example_env example_event initial \<and>
   fst (handler example_env example_event initial) = Inr ()\<close>
proof -
  have one: \<open>get_prop example_event (str ''Records'') =
     Inr (Arr [Obj [(str ''Sns'',
                     Obj [(str ''Message'', Str (str ''{"email":"user@example.com"}''))])]])\<close>
    by (simp add: example_event_def event_with_message_def)
  have two: \<open>get_prop (Obj [(str ''Records'',
                   Arr [Obj [(str ''Sns'',
                              Obj [(str ''Message'',
                                    Str (str ''{"email":"user@example.com"}''))])],
                        Null, Str (str ''not a record'')])])
     (str ''Records'') =
     Inr (Arr [Obj [(str ''Sns'',
                     Obj [(str ''Message'', Str (str ''{"email":"user@example.com"}''))])],
               Null, Str (str ''not a record'')])\<close>
    by simp
  have ok: "fst (handler example_env example_event initial) = Inr ()"
    by (simp add: handler_outcome example_run)
  from only_first_record_consulted [OF two one, of example_env initial] one two ok
  show ?thesis
    by simp
qed

text \<open>
  C9. Both variants compute the same functions of email, token, domain, sender and clock:
  the link is \<open>spec_link\<close> of the configured domain, the encoded email and the variant's
  own token (32 hex characters in \<open>index.js\<close>, 40 in the other), the expiry time is
  \<open>spec_expiryTime\<close> of the clock (now plus 2 minutes), and for any link both variants
  hand the same request \<open>spec_emailContent\<close> (to, from, subject \<open>Verify Your Email\<close>,
  HTML body) to the email provider, with the same result. Result and outbound calls of
  both \<open>try\<close> blocks are \<open>process_outcome\<close>, at 16 and at 20 token bytes.
\<close>

theorem variants_share_core_logic:
  assumes "encodeURIComponent (Number_toString env) email = Inr encoded"
    and "DOMAIN_NAME env = Some domain"
  shows "fst (generateVerificationLink env email s) =
           Inr (toHex (randomBytes env 16),
                spec_link domain encoded (toHex (randomBytes env 16)),
                spec_expiryTime (Date_now env)) \<and>
         fst (generateVerificationLink_sm env email s) =
           Inr (toHex (randomBytes env 20),
                spec_link domain encoded (toHex (randomBytes env 20)),
                spec_expiryTime (Date_now env)) \<and>
         length (toHex (randomBytes env 16)) = 32 \<and>
         length (toHex (randomBytes env 20)) = 40 \<and>
         spec_expiryTime (Date_now env) = Date_now env + 2 * 60 * 1000 \<and>
         calls (snd (sendVerificationEmail env email link s)) =
           calls s @ [SgSend (spec_emailContent email (env_value (SENDGRID_FROM_EMAIL env)) link)] \<and>
         calls (snd (sendVerificationEmail_sm env email link s)) =
           calls s @ [SgSend (spec_emailContent email (env_value (SENDGRID_FROM_EMAIL env)) link)] \<and>
         fst (sendVerificationEmail_sm env email link s) =
           fst (sendVerificationEmail env email link s) \<and>
         subject (spec_emailContent email (env_value (SENDGRID_FROM_EMAIL env)) link) =
           str ''Verify Your Email'' \<and>
         fst (handler_try env event s) = fst (process_outcome env event 16) \<and>
         calls (snd (handler_try env event s)) = calls s @ snd (process_outcome env event 16) \<and>
         fst (handler_sm_try env event s) = fst (process_outcome env event 20) \<and>
         calls (snd (handler_sm_try env event s)) = calls s @ snd (process_outcome env event 20)"
proof -
  obtain shown where shown: "ToString (Number_toString env) email = Inr shown"
    using encode_ToString [OF assms(1)] by blast
  have dom: "domain_text env = domain"
    using assms(2) by (rule domain_text_Some)
  have "fst (generateVerificationLink env email s) =
      Inr (toHex (randomBytes env 16), spec_link domain encoded (toHex (randomBytes env 16)),
           spec_expiryTime (Date_now env))"
    by (simp add: generateVerificationLink_run [OF assms(1)] dom)
  moreover have "fst (generateVerificationLink_sm env email s) =
      Inr (toHex (randomBytes env 20), spec_link domain encoded (toHex (randomBytes env 20)),
           spec_expiryTime (Date_now env))"
    by (simp add: generateVerificationLink_sm_run [OF assms(1) shown] dom)
  moreover have "length (toHex (randomBytes env 16)) = 32 \<and>
      length (toHex (randomBytes env 20)) = 40 \<and>
      spec_expiryTime (Date_now env) = Date_now env + 2 * 60 * 1000"
    by (simp add: length_toHex length_randomBytes spec_expiryTime_def)
  moreover have "calls (snd (sendVerificationEmail env email link s)) =
        calls s @ [SgSend (spec_emailContent email (env_value (SENDGRID_FROM_EMAIL env)) link)] \<and>
      calls (snd (sendVerificationEmail_sm env email link s)) =
        calls s @ [SgSend (spec_emailContent email (env_value (SENDGRID_FROM_EMAIL env)) link)] \<and>
      fst (sendVerificationEmail_sm env email link s) =
        fst (sendVerificationEmail env email link s)"
    by (simp add: sendVerificationEmail_run sendVerificationEmail_sm_run [OF shown])
  moreover have "subject (spec_emailContent email (env_value (SENDGRID_FROM_EMAIL env)) link) =
      str ''Verify Your Email''"
    by (simp add: spec_emailContent_def)
  ultimately show ?thesis
    using handler_try_outcome [of env event s] handler_sm_try_outcome [of env event s]
    by blast
qed

theorem variants_share_core_logic_witness:
  "encodeURIComponent (Number_toString example_env) (Str (str ''user@example.com'')) =
     Inr (str ''user%40example.com'') \<and>
   DOMAIN_NAME example_env = Some (str ''example.org'') \<and>
   fst (generateVerificationLink example_env (Str (str ''user@example.com'')) initial) =
     Inr (example_token,
          spec_link (str ''example.org'') (str ''user%40example.com'') example_token,
          1700000120000) \<and>
   fst (generateVerificationLink_sm example_env (Str (str ''user@example.com'')) initial) =
     Inr (example_token @ str ''13243546'',
          spec_link (str ''example.org'') (str ''user%40example.com'')
            (example_token @ str ''13243546''),
          1700000120000)"
proof -
  have dom: "DOMAIN_NAME example_env = Some (str ''example.org'')"
    and ent: "entropy example_env = (\<lambda>i. of_nat (17 * i + 3))"
    and now: "Date_now example_env = 1700000000000"
    by (simp_all add: example_env_def)
  have enc: "encodeURIComponent (Number_toString example_env) (Str (str ''user@example.com'')) =
      Inr (str ''user%40example.com'')"
    by (rule example_encoded)
  from variants_share_core_logic [OF enc dom, of initial] dom enc
  show ?thesis
    unfolding example_token_16 [OF ent] example_token_20 [OF ent] now
    by (simp add: spec_expiryTime_def)
qed

text \<open>
  C10. When the message parses and the read of its \<open>email\<close> yields a falsy value (the
  empty string, \<open>null\<close>, \<open>0\<close>, \<open>false\<close>, or \<open>undefined\<close> for a message without the
  field), the \<open>try\<close> block throws the error of a missing email field, whatever the falsy
  value is, the caller gets the generic error and no outbound call is made.
\<close>

theorem falsy_email_rejected:
  assumes "get_prop event (str ''Records'') = Inr (Arr (record0 # others))"
    and "get_prop record0 (str ''Sns'') = Inr Sns"
    and "get_prop Sns (str ''Message'') = Inr msg"
    and "ToString (Number_toString env) msg = Inr text"
    and "JSON_parse env text = Some snsMessage"
    and "get_prop snsMessage (str ''email'') = Inr email"
    and "\<not> truthy email"
  shows "fst (handler_try env event s) =
           Inl (Error (str ''Invalid SNS message: Missing email field'')) \<and>
         fst (handler_sm_try env event s) =
           Inl (Error (str ''Invalid SNS message: Missing email field'')) \<and>
         handler env event s = (Inl (Error (str ''Verification process failed'')), s) \<and>
         fst (handler_sm env event s) = Inl (Error (str ''Verification process failed'')) \<and>
         calls (snd (handler_sm env event s)) = calls s \<and>
         \<not> truthy (Str []) \<and> \<not> truthy Null \<and> \<not> truthy (Num (Finite 0)) \<and>
         \<not> truthy (Bool False) \<and> \<not> truthy Undefined"
proof -
  have "extracted_email env event =
      Inl (Error (str ''Invalid SNS message: Missing email field''))"
    using extracted_email_chain [OF assms(1-6)] assms(7) by simp
  from handler_rejects [OF this, of s] show ?thesis
    by simp
qed

theorem falsy_email_rejected_witness:
  \<open>JSON_parse example_env (str ''{"email":""}'') = Some (Obj [(str ''email'', Str [])]) \<and>
   \<not> truthy (Str []) \<and>
   handler example_env (event_with_message (str ''{"email":""}'')) initial =
     (Inl (Error (str ''Verification process failed'')), initial) \<and>
   calls (snd (handler_sm example_env (event_with_message (str ''{"email":""}'')) initial)) = []\<close>
proof -
  have parse: \<open>JSON_parse example_env (str ''{"email":""}'') =
      Some (Obj [(str ''email'', Str [])])\<close>
    by (simp add: example_env_def empty_email_text)
  have shown: \<open>ToString (Number_toString example_env) (Str (str ''{"email":""}'')) =
      Inr (str ''{"email":""}'')\<close>
    by simp
  have email: "get_prop (Obj [(str ''email'', Str [])]) (str ''email'') = Inr (Str [])"
    by simp
  have falsy: "\<not> truthy (Str [])"
    by simp
  from falsy_email_rejected
         [OF event_with_message_reads(1) event_with_message_reads(2)
             event_with_message_reads(3) shown parse email falsy, of initial]
    parse
  show ?thesis
    by (simp add: initial_def)
qed

end
